theory Spec2Isabelle
  imports Complex_Main
begin

section \<open>Python values and exceptions\<close>

text \<open>
  The exceptions that the client in \<^verbatim>\<open>kmd_nova/api.py\<close> can raise.  \<open>ValueError\<close> and
  \<open>KeyError\<close> carry their argument.  \<open>HTTPError\<close> (raised by \<^verbatim>\<open>raise_for_status\<close>)
  carries the status code.  \<open>RequestException\<close> stands for the transport failures of
  \<^verbatim>\<open>requests\<close> (no connection, timeout), \<open>OSError\<close> for a file that cannot be opened.
\<close>

datatype error =
    ValueError string
  | KeyError string
  | TypeError
  | AttributeError
  | OverflowError
  | JSONDecodeError
  | HTTPError int
  | RequestException
  | OSError

text \<open>
  The objects that \<^verbatim>\<open>response.json()\<close> produces: \<open>None\<close>, \<open>bool\<close>, \<open>int\<close>, \<open>float\<close>,
  \<open>str\<close>, \<open>list\<close> and \<open>dict\<close> (its items in insertion order; the keys of a decoded
  dict are strings).  A finite float is given by its exact value.
\<close>

datatype pyfloat = Finite rat | Infinite | NaN

datatype pyval =
    PNone
  | PBool bool
  | PInt int
  | PFloat pyfloat
  | PStr string
  | PList "pyval list"
  | PDict "(string \<times> pyval) list"

text \<open>\<^verbatim>\<open>obj[key]\<close> with a string key: only a dict can be subscripted by a string.\<close>

definition py_getitem :: "pyval \<Rightarrow> string \<Rightarrow> error + pyval" where
  "py_getitem obj key =
     (case obj of
        PDict items \<Rightarrow> (case map_of items key of None \<Rightarrow> Inl (KeyError key) | Some v \<Rightarrow> Inr v)
      | _ \<Rightarrow> Inl TypeError)"

text \<open>\<^verbatim>\<open>obj.get(key, default)\<close>: a method of dicts only.\<close>

definition py_get :: "pyval \<Rightarrow> string \<Rightarrow> pyval \<Rightarrow> error + pyval" where
  "py_get obj key dflt =
     (case obj of
        PDict items \<Rightarrow> Inr (case map_of items key of None \<Rightarrow> dflt | Some v \<Rightarrow> v)
      | _ \<Rightarrow> Inl AttributeError)"

text \<open>
  \<^verbatim>\<open>for x in obj\<close>: a list yields its elements, a dict its keys, a string its
  characters (each a string of length one); nothing else is iterable.
\<close>

definition py_iter :: "pyval \<Rightarrow> error + pyval list" where
  "py_iter obj =
     (case obj of
        PList xs \<Rightarrow> Inr xs
      | PDict items \<Rightarrow> Inr (map (\<lambda>kv. PStr (fst kv)) items)
      | PStr s \<Rightarrow> Inr (map (\<lambda>c. PStr [c]) s)
      | _ \<Rightarrow> Inl TypeError)"

text \<open>
  \<^verbatim>\<open>int(obj)\<close>.  A bool is an int; a finite float is truncated towards zero; a string is
  parsed by the interpreter, which the parameter \<open>parse\<close> stands for: it gives the
  integer, or the message of the \<open>ValueError\<close> raised when the string is no integer
  literal (the message quotes the string).
\<close>

definition py_int :: "(string \<Rightarrow> string + int) \<Rightarrow> pyval \<Rightarrow> error + int" where
  "py_int parse obj =
     (case obj of
        PInt n \<Rightarrow> Inr n
      | PBool b \<Rightarrow> Inr (if b then 1 else 0)
      | PFloat f \<Rightarrow>
          (case f of
             Finite q \<Rightarrow> Inr (if 0 \<le> q then \<lfloor>q\<rfloor> else \<lceil>q\<rceil>)
           | Infinite \<Rightarrow> Inl OverflowError
           | NaN \<Rightarrow> Inl (ValueError ''cannot convert float NaN to integer''))
      | PStr s \<Rightarrow>
          (case parse s of
             Inl message \<Rightarrow> Inl (ValueError message)
           | Inr n \<Rightarrow> Inr n)
      | _ \<Rightarrow> Inl TypeError)"

text \<open>Truthiness of an argument annotated \<^verbatim>\<open>str\<close> with default \<open>None\<close>.\<close>

definition truthy :: "string option \<Rightarrow> bool" where
  "truthy a = (case a of None \<Rightarrow> False | Some s \<Rightarrow> s \<noteq> [])"

text \<open>Such an argument as a value inside a payload.\<close>

definition str_or_none :: "string option \<Rightarrow> pyval" where
  "str_or_none a = (case a of None \<Rightarrow> PNone | Some s \<Rightarrow> PStr s)"

section \<open>Dates and durations\<close>

text \<open>
  A \<^verbatim>\<open>datetime\<close> is the number of microseconds since \<^verbatim>\<open>datetime.min\<close>
  (0001-01-01 00:00:00); the type holds the instants up to 9999-12-31 23:59:59.999999, that
  is \<open>3652059\<close> days.  A \<^verbatim>\<open>timedelta\<close> is a number of microseconds, of at most
  \<open>999999999\<close> days in magnitude.  Leaving either range raises \<open>OverflowError\<close>.
\<close>

definition DATETIME_END :: int where
  "DATETIME_END = 3652059 * 86400 * 1000000"

definition timedelta_seconds :: "int \<Rightarrow> error + int" where
  "timedelta_seconds n =
     (if - 999999999 \<le> n div 86400 \<and> n div 86400 \<le> 999999999
      then Inr (n * 1000000) else Inl OverflowError)"

definition datetime_add :: "int \<Rightarrow> int \<Rightarrow> error + int" where
  "datetime_add t d =
     (if 0 \<le> t + d \<and> t + d < DATETIME_END then Inr (t + d) else Inl OverflowError)"

section \<open>The world outside the client\<close>

datatype http_method = GET | POST | PUT

text \<open>
  The body of a request: none, the string given as \<^verbatim>\<open>data\<close>, the string
  \<^verbatim>\<open>json.dumps(payload)\<close> (kept as the payload it encodes), or the \<^verbatim>\<open>files\<close> of a
  multipart request (field name, file name, file content, content type).
\<close>

datatype body =
    No_body
  | Data string
  | Json pyval
  | Files "(string \<times> string \<times> string \<times> string) list"

record request =
  http_method :: http_method
  url :: string
  headers :: "(string \<times> string) list"
  body :: body
  timeout :: nat

text \<open>
  A response: its status code, the value of \<^verbatim>\<open>response.json()\<close> (\<open>None\<close> when the body
  is not JSON, and the call raises) and \<^verbatim>\<open>response.content\<close>.
\<close>

record response =
  status_code :: int
  json_body :: "pyval option"
  content :: string

text \<open>
  Everything the client reads from outside: the clock (the \<open>n\<close>-th reading of
  \<^verbatim>\<open>datetime.now()\<close>), the generator of \<^verbatim>\<open>uuid.uuid4()\<close> (its \<open>n\<close>-th value as a
  string), the network (the answer to the \<open>n\<close>-th request, \<open>None\<close> when the transport
  fails), the requests sent so far, the file system, and the library functions
  \<^verbatim>\<open>int\<close> on strings, \<^verbatim>\<open>str\<close> on values that are no strings,
  \<^verbatim>\<open>mimetypes.guess_type(path)[0]\<close>, \<^verbatim>\<open>os.path.basename\<close> and
  \<^verbatim>\<open>strftime('%Y-%m-%dT%H:%M:%SZ')\<close>.
\<close>

record world =
  clock :: "nat \<Rightarrow> int"
  clock_reads :: nat
  uuid_values :: "nat \<Rightarrow> string"
  uuid_draws :: nat
  server :: "nat \<Rightarrow> request \<Rightarrow> response option"
  sent :: "request list"
  files :: "string \<Rightarrow> string option"
  int_of_str :: "string \<Rightarrow> string + int"
  str_of :: "pyval \<Rightarrow> string"
  guess_type :: "string \<Rightarrow> string option"
  basename :: "string \<Rightarrow> string"
  strftime :: "int \<Rightarrow> string"

definition datetime_now :: "world \<Rightarrow> int \<times> world" where
  "datetime_now w = (clock w (clock_reads w), w\<lparr>clock_reads := Suc (clock_reads w)\<rparr>)"

definition uuid4 :: "world \<Rightarrow> string \<times> world" where
  "uuid4 w = (uuid_values w (uuid_draws w), w\<lparr>uuid_draws := Suc (uuid_draws w)\<rparr>)"

text \<open>\<^verbatim>\<open>requests.get\<close>, \<^verbatim>\<open>requests.post\<close> and \<^verbatim>\<open>requests.put\<close>.\<close>

definition requests_send :: "request \<Rightarrow> world \<Rightarrow> (error + response) \<times> world" where
  "requests_send rq w =
     ((case server w (length (sent w)) rq of
         None \<Rightarrow> Inl RequestException
       | Some resp \<Rightarrow> Inr resp),
      w\<lparr>sent := sent w @ [rq]\<rparr>)"

text \<open>\<^verbatim>\<open>response.raise_for_status()\<close> raises for the codes 400 to 599.\<close>

definition raise_for_status :: "response \<Rightarrow> error + unit" where
  "raise_for_status resp =
     (if 400 \<le> status_code resp \<and> status_code resp < 600
      then Inl (HTTPError (status_code resp)) else Inr ())"

definition response_json :: "response \<Rightarrow> error + pyval" where
  "response_json resp =
     (case json_body resp of None \<Rightarrow> Inl JSONDecodeError | Some v \<Rightarrow> Inr v)"

text \<open>A value inside an f-string: a string stands for itself.\<close>

definition format_value :: "world \<Rightarrow> pyval \<Rightarrow> string" where
  "format_value w v = (case v of PStr s \<Rightarrow> s | _ \<Rightarrow> str_of w v)"

section \<open>The domain objects\<close>

text \<open>
  Modelled from the spec: the classes \<open>CaseParty\<close>, \<open>NovaCase\<close> and \<open>NovaDocument\<close> of
  \<^verbatim>\<open>kmd_nova/nova_objects.py\<close>, which is not among the sources.  They are the
  value objects of the data model, with the field names that \<^verbatim>\<open>api.py\<close> constructs
  them with; a field holds the value received, whatever its type.
\<close>

record CaseParty =
  identification_type :: pyval
  identification :: pyval
  role :: pyval
  name :: pyval

record NovaCase =
  uuid :: pyval
  title :: pyval
  case_date :: pyval
  case_number :: pyval
  active_code :: pyval
  progress_state :: pyval
  case_parties :: "CaseParty list"

record NovaDocument =
  uuid :: pyval
  title :: pyval
  sensitivity :: pyval
  document_type :: pyval
  description :: pyval
  approved :: pyval
  document_date :: pyval
  file_extension :: pyval

section \<open>The client\<close>

text \<open>The attributes of a \<open>NovaESDH\<close> instance (\<open>bearer_token\<close> is \<^verbatim>\<open>_bearer_token\<close>).\<close>

record NovaESDH =
  client_id :: string
  client_secret :: string
  bearer_token :: pyval
  token_expiry_date :: int

definition DOMAIN :: string where
  "DOMAIN = ''https://cap-novaapi.kmd.dk''"

definition TIMEOUT :: nat where
  "TIMEOUT = 60"

subsection \<open>Tokens\<close>

definition token_url :: string where
  "token_url = ''https://novaauth.kmd.dk/realms/NovaIntegration/protocol/openid-connect/token''"

text \<open>The request of \<^verbatim>\<open>_get_new_token\<close>.\<close>

definition token_request :: "string \<Rightarrow> string \<Rightarrow> request" where
  "token_request cid secret =
     \<lparr>http_method = POST,
      url = token_url,
      headers = [(''Content-Type'', ''application/x-www-form-urlencoded'')],
      body = Data (''client_secret='' @ secret @ ''&grant_type=client_credentials&client_id=''
                   @ cid @ ''&scope=client''),
      timeout = TIMEOUT\<rparr>"

text \<open>
  \<^verbatim>\<open>_get_new_token\<close>.  It reads \<^verbatim>\<open>self.client_id\<close> and \<^verbatim>\<open>self.client_secret\<close>
  only (the constructor calls it before the other attributes exist), so these two are
  its arguments.
\<close>

definition get_new_token :: "string \<Rightarrow> string \<Rightarrow> world \<Rightarrow> (error + pyval \<times> int) \<times> world" where
  "get_new_token cid secret w =
     (case requests_send (token_request cid secret) w of (r, w1) \<Rightarrow>
     (case r of Inl e \<Rightarrow> (Inl e, w1) | Inr resp \<Rightarrow>
     (case raise_for_status resp of Inl e \<Rightarrow> (Inl e, w1) | Inr _ \<Rightarrow>
     (case response_json resp of Inl e \<Rightarrow> (Inl e, w1) | Inr j1 \<Rightarrow>
     (case py_getitem j1 ''access_token'' of Inl e \<Rightarrow> (Inl e, w1) | Inr bearer \<Rightarrow>
     (case response_json resp of Inl e \<Rightarrow> (Inl e, w1) | Inr j2 \<Rightarrow>
     (case py_getitem j2 ''expires_in'' of Inl e \<Rightarrow> (Inl e, w1) | Inr token_life_seconds \<Rightarrow>
     (case datetime_now w1 of (now, w2) \<Rightarrow>
     (case py_int (int_of_str w2) token_life_seconds of Inl e \<Rightarrow> (Inl e, w2) | Inr n \<Rightarrow>
     (case timedelta_seconds n of Inl e \<Rightarrow> (Inl e, w2) | Inr d \<Rightarrow>
     (case datetime_add now d of Inl e \<Rightarrow> (Inl e, w2) | Inr expiry \<Rightarrow>
        (Inr (bearer, expiry), w2))))))))))))"

text \<open>\<^verbatim>\<open>NovaESDH.__init__\<close>: the instance exists only when the token exchange succeeded.\<close>

definition init :: "string \<Rightarrow> string \<Rightarrow> world \<Rightarrow> (error + NovaESDH) \<times> world" where
  "init cid secret w =
     (case get_new_token cid secret w of (r, w1) \<Rightarrow>
     (case r of
        Inl e \<Rightarrow> (Inl e, w1)
      | Inr (bearer, expiry) \<Rightarrow>
          (Inr \<lparr>client_id = cid, client_secret = secret,
                bearer_token = bearer, token_expiry_date = expiry\<rparr>, w1)))"

text \<open>
  \<^verbatim>\<open>get_bearer_token\<close>.  The left operand of the comparison is evaluated before the
  clock is read; the two attributes are assigned together, after \<^verbatim>\<open>_get_new_token\<close>
  has returned.
\<close>

definition get_bearer_token :: "NovaESDH \<Rightarrow> world \<Rightarrow> (error + pyval) \<times> NovaESDH \<times> world" where
  "get_bearer_token self w =
     (case timedelta_seconds 30 of Inl e \<Rightarrow> (Inl e, self, w) | Inr d \<Rightarrow>
     (case datetime_add (token_expiry_date self) d of Inl e \<Rightarrow> (Inl e, self, w) | Inr t \<Rightarrow>
     (case datetime_now w of (now, w1) \<Rightarrow>
      if t < now then
        (case get_new_token (client_id self) (client_secret self) w1 of (r, w2) \<Rightarrow>
        (case r of
           Inl e \<Rightarrow> (Inl e, self, w2)
         | Inr (bearer, expiry) \<Rightarrow>
             (Inr bearer, self\<lparr>bearer_token := bearer, token_expiry_date := expiry\<rparr>, w2)))
      else (Inr (bearer_token self), self, w1))))"

subsection \<open>Address lookup\<close>

text \<open>
  The request of each operation is given by a definition of its own; \<open>bearer\<close> is the
  token as the f-string of the \<^verbatim>\<open>Authorization\<close> header renders it.
\<close>

definition get_address_request :: "string \<Rightarrow> string \<Rightarrow> string \<Rightarrow> request" where
  "get_address_request bearer transaction_id cpr =
     \<lparr>http_method = GET,
      url = DOMAIN @ ''/api/Cpr/GetAddressByCpr'' @ ''?TransactionId='' @ transaction_id
            @ ''&Cpr='' @ cpr @ ''&api-version=1.0-Cpr'',
      headers = [(''Authorization'', ''Bearer '' @ bearer)],
      body = No_body,
      timeout = TIMEOUT\<rparr>"

definition get_address_by_cpr ::
  "NovaESDH \<Rightarrow> world \<Rightarrow> string \<Rightarrow> (error + pyval) \<times> NovaESDH \<times> world" where
  "get_address_by_cpr self w cpr =
     (case uuid4 w of (transaction_id, w1) \<Rightarrow>
     (case get_bearer_token self w1 of (tok, self1, w2) \<Rightarrow>
     (case tok of Inl e \<Rightarrow> (Inl e, self1, w2) | Inr token \<Rightarrow>
     (case requests_send (get_address_request (format_value w2 token) transaction_id cpr) w2
        of (r, w3) \<Rightarrow>
     (case r of Inl e \<Rightarrow> (Inl e, self1, w3) | Inr resp \<Rightarrow>
     (case raise_for_status resp of Inl e \<Rightarrow> (Inl e, self1, w3) | Inr _ \<Rightarrow>
     (case response_json resp of Inl e \<Rightarrow> (Inl e, self1, w3) | Inr address \<Rightarrow>
        (Inr address, self1, w3))))))))"

subsection \<open>Case search\<close>

definition cases_url :: string where
  "cases_url = DOMAIN @ ''/api/Case/GetList?api-version=1.0-Case''"

text \<open>The payload of \<^verbatim>\<open>get_cases\<close>, before \<^verbatim>\<open>json.dumps\<close>.\<close>

definition get_cases_payload ::
  "string \<Rightarrow> string option \<Rightarrow> string option \<Rightarrow> string option \<Rightarrow> pyval" where
  "get_cases_payload transaction_id cpr case_number' case_title =
     PDict
      [(''common'', PDict [(''transactionId'', PStr transaction_id)]),
       (''paging'', PDict [(''startRow'', PInt 1), (''numberOfRows'', PInt 100)]),
       (''caseAttributes'',
          PDict [(''userFriendlyCaseNumber'', str_or_none case_number'),
                 (''title'', str_or_none case_title)]),
       (''caseParty'',
          PDict [(''identificationType'', PStr ''CprNummer''),
                 (''identification'', str_or_none cpr)]),
       (''caseGetOutput'',
          PDict [(''numberOfSecondaryParties'', PBool True),
                 (''caseParty'',
                    PDict [(''identificationType'', PBool True),
                           (''identification'', PBool True),
                           (''partyRole'', PBool True),
                           (''name'', PBool True)]),
                 (''caseAttributes'',
                    PDict [(''title'', PBool True),
                           (''userFriendlyCaseNumber'', PBool True),
                           (''caseDate'', PBool True)]),
                 (''state'',
                    PDict [(''activeCode'', PBool True),
                           (''progressState'', PBool True)])])]"

text \<open>The body of the inner loop: one \<open>CaseParty\<close> from one element of \<^verbatim>\<open>caseParties\<close>.\<close>

definition party_of_dict :: "pyval \<Rightarrow> error + CaseParty" where
  "party_of_dict party_dict =
     (case py_getitem party_dict ''identificationType'' of Inl e \<Rightarrow> Inl e | Inr a \<Rightarrow>
     (case py_getitem party_dict ''identification'' of Inl e \<Rightarrow> Inl e | Inr b \<Rightarrow>
     (case py_getitem party_dict ''partyRole'' of Inl e \<Rightarrow> Inl e | Inr c \<Rightarrow>
     (case py_get party_dict ''name'' PNone of Inl e \<Rightarrow> Inl e | Inr d \<Rightarrow>
        Inr \<lparr>identification_type = a, identification = b, role = c, name = d\<rparr>))))"

text \<open>The inner loop, with the list \<^verbatim>\<open>parties\<close> built so far.\<close>

fun parties_loop :: "pyval list \<Rightarrow> CaseParty list \<Rightarrow> error + CaseParty list" where
  "parties_loop [] parties = Inr parties"
| "parties_loop (party_dict # rest) parties =
     (case party_of_dict party_dict of
        Inl e \<Rightarrow> Inl e
      | Inr party \<Rightarrow> parties_loop rest (parties @ [party]))"

text \<open>The body of the outer loop: one \<open>NovaCase\<close> from one element of \<^verbatim>\<open>cases\<close>.\<close>

definition case_of_dict :: "pyval \<Rightarrow> error + NovaCase" where
  "case_of_dict case_dict =
     (case py_getitem case_dict ''caseParties'' of Inl e \<Rightarrow> Inl e | Inr ps \<Rightarrow>
     (case py_iter ps of Inl e \<Rightarrow> Inl e | Inr party_dicts \<Rightarrow>
     (case parties_loop party_dicts [] of Inl e \<Rightarrow> Inl e | Inr parties \<Rightarrow>
     (case py_getitem case_dict ''common'' of Inl e \<Rightarrow> Inl e | Inr c1 \<Rightarrow>
     (case py_getitem c1 ''uuid'' of Inl e \<Rightarrow> Inl e | Inr v1 \<Rightarrow>
     (case py_getitem case_dict ''caseAttributes'' of Inl e \<Rightarrow> Inl e | Inr c2 \<Rightarrow>
     (case py_getitem c2 ''title'' of Inl e \<Rightarrow> Inl e | Inr v2 \<Rightarrow>
     (case py_getitem case_dict ''caseAttributes'' of Inl e \<Rightarrow> Inl e | Inr c3 \<Rightarrow>
     (case py_getitem c3 ''caseDate'' of Inl e \<Rightarrow> Inl e | Inr v3 \<Rightarrow>
     (case py_getitem case_dict ''caseAttributes'' of Inl e \<Rightarrow> Inl e | Inr c4 \<Rightarrow>
     (case py_getitem c4 ''userFriendlyCaseNumber'' of Inl e \<Rightarrow> Inl e | Inr v4 \<Rightarrow>
     (case py_getitem case_dict ''state'' of Inl e \<Rightarrow> Inl e | Inr c5 \<Rightarrow>
     (case py_getitem c5 ''activeCode'' of Inl e \<Rightarrow> Inl e | Inr v5 \<Rightarrow>
     (case py_getitem case_dict ''state'' of Inl e \<Rightarrow> Inl e | Inr c6 \<Rightarrow>
     (case py_getitem c6 ''progressState'' of Inl e \<Rightarrow> Inl e | Inr v6 \<Rightarrow>
        Inr \<lparr>NovaCase.uuid = v1, title = v2, case_date = v3, case_number = v4,
             active_code = v5, progress_state = v6,
             case_parties = parties\<rparr>)))))))))))))))"

text \<open>The outer loop, with the list \<^verbatim>\<open>cases\<close> built so far.\<close>

fun cases_loop :: "pyval list \<Rightarrow> NovaCase list \<Rightarrow> error + NovaCase list" where
  "cases_loop [] cases = Inr cases"
| "cases_loop (case_dict # rest) cases =
     (case case_of_dict case_dict of
        Inl e \<Rightarrow> Inl e
      | Inr c \<Rightarrow> cases_loop rest (cases @ [c]))"

text \<open>Lines 160 to 184 of \<^verbatim>\<open>get_cases\<close>: the response converted to \<open>NovaCase\<close> objects.\<close>

definition cases_of_response :: "response \<Rightarrow> error + NovaCase list" where
  "cases_of_response resp =
     (case response_json resp of Inl e \<Rightarrow> Inl e | Inr j \<Rightarrow>
     (case py_getitem j ''cases'' of Inl e \<Rightarrow> Inl e | Inr cs \<Rightarrow>
     (case py_iter cs of Inl e \<Rightarrow> Inl e | Inr case_dicts \<Rightarrow>
        cases_loop case_dicts [])))"

definition get_cases_request ::
  "string \<Rightarrow> string \<Rightarrow> string option \<Rightarrow> string option \<Rightarrow> string option \<Rightarrow> request" where
  "get_cases_request bearer transaction_id cpr case_number' case_title =
     \<lparr>http_method = PUT,
      url = cases_url,
      headers = [(''Content-Type'', ''application/json''),
                 (''Authorization'', ''Bearer '' @ bearer)],
      body = Json (get_cases_payload transaction_id cpr case_number' case_title),
      timeout = TIMEOUT\<rparr>"

definition get_cases ::
  "NovaESDH \<Rightarrow> world \<Rightarrow> string option \<Rightarrow> string option \<Rightarrow> string option
     \<Rightarrow> (error + NovaCase list) \<times> NovaESDH \<times> world" where
  "get_cases self w cpr case_number' case_title =
     (if \<not> (truthy cpr \<or> truthy case_number' \<or> truthy case_title)
      then (Inl (ValueError ''No search terms given.''), self, w)
      else
     (case uuid4 w of (transaction_id, w1) \<Rightarrow>
     (case get_bearer_token self w1 of (tok, self1, w2) \<Rightarrow>
     (case tok of Inl e \<Rightarrow> (Inl e, self1, w2) | Inr token \<Rightarrow>
     (case requests_send
             (get_cases_request (format_value w2 token) transaction_id cpr case_number' case_title)
             w2 of (r, w3) \<Rightarrow>
     (case r of Inl e \<Rightarrow> (Inl e, self1, w3) | Inr resp \<Rightarrow>
     (case raise_for_status resp of Inl e \<Rightarrow> (Inl e, self1, w3) | Inr _ \<Rightarrow>
        (cases_of_response resp, self1, w3))))))))"

subsection \<open>Document upload\<close>

definition upload_url :: "string \<Rightarrow> string \<Rightarrow> string" where
  "upload_url transaction_id document_id =
     DOMAIN @ ''/api/Document/UploadFile/'' @ transaction_id @ ''/'' @ document_id
       @ ''?api-version=1.0-Case''"

definition upload_request ::
  "string \<Rightarrow> string \<Rightarrow> string \<Rightarrow> string \<Rightarrow> string \<Rightarrow> string \<Rightarrow> request" where
  "upload_request bearer transaction_id document_id file_name file mime_type =
     \<lparr>http_method = POST,
      url = upload_url transaction_id document_id,
      headers = [(''Authorization'', ''Bearer '' @ bearer), (''accept'', ''*/*'')],
      body = Files [(''file'', file_name, file, mime_type)],
      timeout = TIMEOUT\<rparr>"

definition upload_document ::
  "NovaESDH \<Rightarrow> world \<Rightarrow> string \<Rightarrow> (error + string) \<times> NovaESDH \<times> world" where
  "upload_document self w document_path =
     (case uuid4 w of (transaction_id, w1) \<Rightarrow>
     (case uuid4 w1 of (document_id, w2) \<Rightarrow>
     (case get_bearer_token self w2 of (tok, self1, w3) \<Rightarrow>
     (case tok of Inl e \<Rightarrow> (Inl e, self1, w3) | Inr token \<Rightarrow>
     (let file_name = basename w3 document_path;
          mime_type = (case guess_type w3 document_path of
                         None \<Rightarrow> ''application/octet-stream''
                       | Some m \<Rightarrow> m)
      in
     (case files w3 document_path of None \<Rightarrow> (Inl OSError, self1, w3) | Some file \<Rightarrow>
     (case requests_send
             (upload_request (format_value w3 token) transaction_id document_id
                file_name file mime_type)
             w3 of (r, w4) \<Rightarrow>
     (case r of Inl e \<Rightarrow> (Inl e, self1, w4) | Inr resp \<Rightarrow>
     (case raise_for_status resp of Inl e \<Rightarrow> (Inl e, self1, w4) | Inr _ \<Rightarrow>
        (Inr document_id, self1, w4))))))))))"

subsection \<open>Document list\<close>

definition documents_url :: string where
  "documents_url = DOMAIN @ ''/api/Document/GetList?api-version=1.0-Case''"

text \<open>The payload of \<^verbatim>\<open>get_documents\<close>, before \<^verbatim>\<open>json.dumps\<close>.\<close>

definition get_documents_payload :: "string \<Rightarrow> string \<Rightarrow> pyval" where
  "get_documents_payload transaction_id case_uuid =
     PDict
      [(''common'', PDict [(''transactionId'', PStr transaction_id)]),
       (''paging'', PDict [(''startRow'', PInt 1), (''numberOfRows'', PInt 100)]),
       (''getOutput'',
          PDict [(''title'', PBool True),
                 (''sensitivity'', PBool True),
                 (''documentType'', PBool True),
                 (''description'', PBool True),
                 (''approved'', PBool True),
                 (''documentDate'', PBool True),
                 (''fileExtension'', PBool True),
                 (''responsibleDepartment'', PBool True),
                 (''securityUnit'', PBool True)]),
       (''caseUuid'', PStr case_uuid)]"

text \<open>The body of the loop: one \<open>NovaDocument\<close> from one element of \<^verbatim>\<open>documents\<close>.\<close>

definition document_of_dict :: "pyval \<Rightarrow> error + NovaDocument" where
  "document_of_dict document_dict =
     (case py_getitem document_dict ''documentUuid'' of Inl e \<Rightarrow> Inl e | Inr v1 \<Rightarrow>
     (case py_getitem document_dict ''title'' of Inl e \<Rightarrow> Inl e | Inr v2 \<Rightarrow>
     (case py_getitem document_dict ''sensitivity'' of Inl e \<Rightarrow> Inl e | Inr v3 \<Rightarrow>
     (case py_getitem document_dict ''documentType'' of Inl e \<Rightarrow> Inl e | Inr v4 \<Rightarrow>
     (case py_get document_dict ''description'' PNone of Inl e \<Rightarrow> Inl e | Inr v5 \<Rightarrow>
     (case py_getitem document_dict ''approved'' of Inl e \<Rightarrow> Inl e | Inr v6 \<Rightarrow>
     (case py_getitem document_dict ''documentDate'' of Inl e \<Rightarrow> Inl e | Inr v7 \<Rightarrow>
     (case py_getitem document_dict ''fileExtension'' of Inl e \<Rightarrow> Inl e | Inr v8 \<Rightarrow>
        Inr \<lparr>uuid = v1, title = v2, sensitivity = v3, document_type = v4,
             description = v5, approved = v6, document_date = v7,
             file_extension = v8\<rparr>))))))))"

text \<open>The loop, with the list \<^verbatim>\<open>documents\<close> built so far.\<close>

fun documents_loop :: "pyval list \<Rightarrow> NovaDocument list \<Rightarrow> error + NovaDocument list" where
  "documents_loop [] documents = Inr documents"
| "documents_loop (document_dict # rest) documents =
     (case document_of_dict document_dict of
        Inl e \<Rightarrow> Inl e
      | Inr doc \<Rightarrow> documents_loop rest (documents @ [doc]))"

text \<open>Lines 258 to 272 of \<^verbatim>\<open>get_documents\<close>: the response converted to objects.\<close>

definition documents_of_response :: "response \<Rightarrow> error + NovaDocument list" where
  "documents_of_response resp =
     (case response_json resp of Inl e \<Rightarrow> Inl e | Inr j \<Rightarrow>
     (case py_getitem j ''documents'' of Inl e \<Rightarrow> Inl e | Inr ds \<Rightarrow>
     (case py_iter ds of Inl e \<Rightarrow> Inl e | Inr document_dicts \<Rightarrow>
        documents_loop document_dicts [])))"

definition get_documents_request :: "string \<Rightarrow> string \<Rightarrow> string \<Rightarrow> request" where
  "get_documents_request bearer transaction_id case_uuid =
     \<lparr>http_method = PUT,
      url = documents_url,
      headers = [(''Content-Type'', ''application/json''),
                 (''Authorization'', ''Bearer '' @ bearer)],
      body = Json (get_documents_payload transaction_id case_uuid),
      timeout = TIMEOUT\<rparr>"

definition get_documents ::
  "NovaESDH \<Rightarrow> world \<Rightarrow> string \<Rightarrow> (error + NovaDocument list) \<times> NovaESDH \<times> world" where
  "get_documents self w case_uuid =
     (case uuid4 w of (transaction_id, w1) \<Rightarrow>
     (case get_bearer_token self w1 of (tok, self1, w2) \<Rightarrow>
     (case tok of Inl e \<Rightarrow> (Inl e, self1, w2) | Inr token \<Rightarrow>
     (case requests_send
             (get_documents_request (format_value w2 token) transaction_id case_uuid)
             w2 of (r, w3) \<Rightarrow>
     (case r of Inl e \<Rightarrow> (Inl e, self1, w3) | Inr resp \<Rightarrow>
     (case raise_for_status resp of Inl e \<Rightarrow> (Inl e, self1, w3) | Inr _ \<Rightarrow>
        (documents_of_response resp, self1, w3)))))))"

subsection \<open>Document download\<close>

text \<open>
  An argument with a default is an option, \<open>None\<close> when the call leaves it out:
  \<^verbatim>\<open>checkout\<close> is then \<open>False\<close> and \<^verbatim>\<open>checkout_comment\<close> is \<open>None\<close>.
\<close>

definition download_request ::
  "string \<Rightarrow> string \<Rightarrow> string \<Rightarrow> bool option \<Rightarrow> string option \<Rightarrow> request" where
  "download_request bearer transaction_id document_uuid checkout checkout_comment =
     \<lparr>http_method = PUT,
      url = DOMAIN @ ''/api/Document/GetFile?api-version=1.0-Case'',
      headers = [(''Content-Type'', ''application/json''),
                 (''Authorization'', ''Bearer '' @ bearer)],
      body = Json (PDict
               [(''common'', PDict [(''transactionId'', PStr transaction_id),
                                    (''uuid'', PStr document_uuid)]),
                (''checkOutDocument'',
                   PBool (case checkout of None \<Rightarrow> False | Some b \<Rightarrow> b)),
                (''checkOutComment'', str_or_none checkout_comment)]),
      timeout = TIMEOUT\<rparr>"

definition download_document_file ::
  "NovaESDH \<Rightarrow> world \<Rightarrow> string \<Rightarrow> bool option \<Rightarrow> string option
     \<Rightarrow> (error + string) \<times> NovaESDH \<times> world" where
  "download_document_file self w document_uuid checkout checkout_comment =
     (case uuid4 w of (transaction_id, w1) \<Rightarrow>
     (case get_bearer_token self w1 of (tok, self1, w2) \<Rightarrow>
     (case tok of Inl e \<Rightarrow> (Inl e, self1, w2) | Inr token \<Rightarrow>
     (case requests_send
             (download_request (format_value w2 token) transaction_id document_uuid
                checkout checkout_comment)
             w2 of (r, w3) \<Rightarrow>
     (case r of Inl e \<Rightarrow> (Inl e, self1, w3) | Inr resp \<Rightarrow>
     (case raise_for_status resp of Inl e \<Rightarrow> (Inl e, self1, w3) | Inr _ \<Rightarrow>
        (Inr (content resp), self1, w3)))))))"

subsection \<open>Document attach\<close>

definition attach_url :: string where
  "attach_url = DOMAIN @ ''/api/Document/Import?api-version=1.0-Case''"

text \<open>
  The payload of \<^verbatim>\<open>attach_document_to_case\<close>, before \<^verbatim>\<open>json.dumps\<close>; \<open>date\<close> is
  the formatted reading of the clock.
\<close>

definition attach_payload ::
  "string \<Rightarrow> string \<Rightarrow> NovaDocument \<Rightarrow> string \<Rightarrow> int \<Rightarrow> string \<Rightarrow> pyval" where
  "attach_payload transaction_id case_uuid document date security_unit_id security_unit_name =
     PDict
      [(''common'', PDict [(''transactionId'', PStr transaction_id),
                           (''uuid'', NovaDocument.uuid document)]),
       (''caseUuid'', PStr case_uuid),
       (''title'', NovaDocument.title document),
       (''sensitivity'', sensitivity document),
       (''documentDate'', PStr date),
       (''documentType'', document_type document),
       (''description'', description document),
       (''securityUnit'',
          PDict [(''losIdentity'',
                    PDict [(''administrativeUnitId'', PInt security_unit_id),
                           (''fullName'', PStr security_unit_name)])]),
       (''approved'', approved document),
       (''accessToDocuments'', PBool True)]"

definition attach_request :: "string \<Rightarrow> pyval \<Rightarrow> request" where
  "attach_request bearer payload =
     \<lparr>http_method = POST,
      url = attach_url,
      headers = [(''Content-Type'', ''application/json''),
                 (''Authorization'', ''Bearer '' @ bearer)],
      body = Json payload,
      timeout = TIMEOUT\<rparr>"

text \<open>
  \<^verbatim>\<open>security_unit_id\<close> and \<^verbatim>\<open>security_unit_name\<close> have the defaults 818485 and
  "Borgerservice"; \<open>None\<close> is a call that leaves the argument out.
\<close>

definition attach_document_to_case ::
  "NovaESDH \<Rightarrow> world \<Rightarrow> string \<Rightarrow> NovaDocument \<Rightarrow> int option \<Rightarrow> string option
     \<Rightarrow> (error + unit) \<times> NovaESDH \<times> world" where
  "attach_document_to_case self w case_uuid document security_unit_id security_unit_name =
     (let unit_id = (case security_unit_id of None \<Rightarrow> 818485 | Some i \<Rightarrow> i);
          unit_name = (case security_unit_name of None \<Rightarrow> ''Borgerservice'' | Some n \<Rightarrow> n)
      in
     (case uuid4 w of (transaction_id, w1) \<Rightarrow>
     (case datetime_now w1 of (now, w2) \<Rightarrow>
     (case get_bearer_token self w2 of (tok, self1, w3) \<Rightarrow>
     (case tok of Inl e \<Rightarrow> (Inl e, self1, w3) | Inr token \<Rightarrow>
     (case requests_send
             (attach_request (format_value w3 token)
                (attach_payload transaction_id case_uuid document
                   (strftime w2 now) unit_id unit_name))
             w3 of (r, w4) \<Rightarrow>
     (case r of Inl e \<Rightarrow> (Inl e, self1, w4) | Inr resp \<Rightarrow>
     (case raise_for_status resp of Inl e \<Rightarrow> (Inl e, self1, w4) | Inr _ \<Rightarrow>
        (Inr (), self1, w4)))))))))"

section \<open>Observations\<close>

text \<open>The requests sent between the world \<open>w\<close> and the later world \<open>w'\<close>.\<close>

definition new_requests :: "world \<Rightarrow> world \<Rightarrow> request list" where
  "new_requests w w' = drop (length (sent w)) (sent w')"

text \<open>The requests to the given address among those sent between two worlds.\<close>

definition requests_to :: "string \<Rightarrow> world \<Rightarrow> world \<Rightarrow> request list" where
  "requests_to address w w' = filter (\<lambda>rq. url rq = address) (new_requests w w')"

text \<open>The requests to the attach endpoint among those sent between two worlds.\<close>

definition attach_requests :: "world \<Rightarrow> world \<Rightarrow> request list" where
  "attach_requests w w' = filter (\<lambda>rq. url rq = attach_url) (new_requests w w')"

text \<open>
  The condition of \<^verbatim>\<open>get_bearer_token\<close> under which a token is requested anew, for the
  reading \<open>now\<close> of the clock: \<^verbatim>\<open>token_expiry_date + timedelta(seconds=30) < now\<close>.
\<close>

definition refresh_due :: "NovaESDH \<Rightarrow> int \<Rightarrow> bool" where
  "refresh_due self now = (token_expiry_date self + 30000000 < now)"

section \<open>The documented shape of the answers\<close>

text \<open>
  Following the spec (external interfaces), a case of a case-search answer has
  \<open>common.uuid\<close>, \<open>caseAttributes.{title, userFriendlyCaseNumber, caseDate}\<close>,
  \<open>state.{activeCode, progressState}\<close> and a list \<open>caseParties\<close>, each party with
  \<open>identificationType\<close>, \<open>identification\<close>, \<open>partyRole\<close> and an optional \<open>name\<close>.
\<close>

definition has_key :: "pyval \<Rightarrow> string \<Rightarrow> bool" where
  "has_key obj key = (case py_getitem obj key of Inr _ \<Rightarrow> True | Inl _ \<Rightarrow> False)"

definition has_key2 :: "pyval \<Rightarrow> string \<Rightarrow> string \<Rightarrow> bool" where
  "has_key2 obj key1 key2 =
     (case py_getitem obj key1 of Inr v \<Rightarrow> has_key v key2 | Inl _ \<Rightarrow> False)"

definition party_shape :: "pyval \<Rightarrow> bool" where
  "party_shape party_dict =
     (has_key party_dict ''identificationType'' \<and> has_key party_dict ''identification''
      \<and> has_key party_dict ''partyRole'')"

definition case_shape :: "pyval \<Rightarrow> bool" where
  "case_shape case_dict =
     (has_key2 case_dict ''common'' ''uuid''
      \<and> has_key2 case_dict ''caseAttributes'' ''title''
      \<and> has_key2 case_dict ''caseAttributes'' ''userFriendlyCaseNumber''
      \<and> has_key2 case_dict ''caseAttributes'' ''caseDate''
      \<and> has_key2 case_dict ''state'' ''activeCode''
      \<and> has_key2 case_dict ''state'' ''progressState''
      \<and> (case py_getitem case_dict ''caseParties'' of
            Inr (PList party_dicts) \<Rightarrow> list_all party_shape party_dicts
          | _ \<Rightarrow> False))"

text \<open>
  Following the spec (external interfaces), a document of a document-list answer is
  an object with \<open>documentUuid\<close>, \<open>title\<close>, \<open>sensitivity\<close>, \<open>documentType\<close>,
  \<open>approved\<close>, \<open>documentDate\<close>, \<open>fileExtension\<close> and an optional \<open>description\<close>.
\<close>

definition is_dict :: "pyval \<Rightarrow> bool" where
  "is_dict obj = (case obj of PDict _ \<Rightarrow> True | _ \<Rightarrow> False)"

definition required_document_fields :: "string list" where
  "required_document_fields =
     [''documentUuid'', ''title'', ''sensitivity'', ''documentType'', ''approved'',
      ''documentDate'', ''fileExtension'']"

text \<open>
  The party object has the fields of the element it was made from, with \<open>None\<close> as its
  name when the element has none; the parties of a case object are those of the case, one
  for one and in their order.
\<close>

definition party_matches :: "pyval \<Rightarrow> CaseParty \<Rightarrow> bool" where
  "party_matches party_dict party =
     (py_getitem party_dict ''identificationType'' = Inr (identification_type party)
      \<and> py_getitem party_dict ''identification'' = Inr (identification party)
      \<and> py_getitem party_dict ''partyRole'' = Inr (role party)
      \<and> name party = (case py_getitem party_dict ''name'' of Inr v \<Rightarrow> v | Inl _ \<Rightarrow> PNone))"

definition parties_match :: "pyval \<Rightarrow> NovaCase \<Rightarrow> bool" where
  "parties_match case_dict c =
     (case py_getitem case_dict ''caseParties'' of
        Inr (PList party_dicts) \<Rightarrow> list_all2 party_matches party_dicts (case_parties c)
      | _ \<Rightarrow> False)"

text \<open>
  The description of the document object is that of the element it was made from, and
  \<open>None\<close> when the element has none.
\<close>

definition description_matches :: "pyval \<Rightarrow> NovaDocument \<Rightarrow> bool" where
  "description_matches document_dict doc =
     (description doc
        = (case py_getitem document_dict ''description'' of Inr v \<Rightarrow> v | Inl _ \<Rightarrow> PNone))"

section \<open>Example inputs\<close>

text \<open>
  A client whose cached token expires at the given instant, and a world at noon of
  2025-12-01 (63900187200000000 microseconds after \<^verbatim>\<open>datetime.min\<close>) with the given
  network, in which nothing has happened yet.
\<close>

definition example_client :: "int \<Rightarrow> NovaESDH" where
  "example_client expiry =
     \<lparr>client_id = ''robot'', client_secret = ''s3cret'',
      bearer_token = PStr ''cached-token'', token_expiry_date = expiry\<rparr>"

definition example_world :: "(nat \<Rightarrow> request \<Rightarrow> response option) \<Rightarrow> world" where
  "example_world srv =
     \<lparr>clock = (\<lambda>n. 63900187200000000),
      clock_reads = 0,
      uuid_values = (\<lambda>n. ''uuid-'' @ replicate (Suc n) CHR ''a''),
      uuid_draws = 0,
      server = srv,
      sent = [],
      files = (\<lambda>path. if path = ''report.pdf'' then Some ''%PDF-1.7''
                    else if path = ''notes'' then Some ''hello'' else None),
      int_of_str = (\<lambda>s. Inl (''invalid literal for int() with base 10: ''
                             @ CHR 0x27 # s @ [CHR 0x27])),
      str_of = (\<lambda>v. []),
      guess_type = (\<lambda>path. if path = ''report.pdf'' then Some ''application/pdf'' else None),
      basename = (\<lambda>path. path),
      strftime = (\<lambda>t. if t = 63900187200000000 then ''2025-12-01T12:00:00Z'' else [])\<rparr>"

text \<open>A network that answers every request with the given status and no JSON body.\<close>

definition failing_server :: "int \<Rightarrow> nat \<Rightarrow> request \<Rightarrow> response option" where
  "failing_server status n rq = Some \<lparr>status_code = status, json_body = None, content = []\<rparr>"

text \<open>A network that answers every request with the given status and JSON body.\<close>

definition status_server :: "int \<Rightarrow> pyval \<Rightarrow> nat \<Rightarrow> request \<Rightarrow> response option" where
  "status_server status answer n rq =
     Some \<lparr>status_code = status, json_body = Some answer, content = []\<rparr>"

text \<open>
  A network that answers with status 200: the token request with \<open>token_answer\<close>, every
  other request with \<open>data_answer\<close>.
\<close>

definition example_server :: "pyval \<Rightarrow> pyval \<Rightarrow> nat \<Rightarrow> request \<Rightarrow> response option" where
  "example_server token_answer data_answer n rq =
     Some \<lparr>status_code = 200,
           json_body = Some (if url rq = token_url then token_answer else data_answer),
           content = ''content''\<rparr>"

text \<open>
  A case-search answer with one case of two parties, the second without a name.
\<close>

definition example_case_dict :: pyval where
  "example_case_dict =
     PDict
      [(''common'', PDict [(''uuid'', PStr ''case-1'')]),
       (''caseAttributes'',
          PDict [(''title'', PStr ''Flytning''),
                 (''userFriendlyCaseNumber'', PStr ''S2023-61078''),
                 (''caseDate'', PStr ''2023-06-01T00:00:00'')]),
       (''state'', PDict [(''activeCode'', PStr ''Active''), (''progressState'', PStr ''Opstaaet'')]),
       (''caseParties'',
          PList [PDict [(''identificationType'', PStr ''CprNummer''),
                        (''identification'', PStr ''0101011234''),
                        (''partyRole'', PStr ''PRI''),
                        (''name'', PStr ''Anna'')],
                 PDict [(''identificationType'', PStr ''CprNummer''),
                        (''identification'', PStr ''0202021234''),
                        (''partyRole'', PStr ''SEC'')]])]"

definition example_cases_answer :: pyval where
  "example_cases_answer = PDict [(''cases'', PList [example_case_dict])]"

text \<open>
  Two document-list answers: a document without a description, and the same document
  followed by one without \<open>documentUuid\<close>.
\<close>

definition example_document_dict :: pyval where
  "example_document_dict =
     PDict [(''documentUuid'', PStr ''doc-1''), (''title'', PStr ''Afgoerelse''),
            (''sensitivity'', PStr ''Fortrolige''), (''documentType'', PStr ''Udgaaende''),
            (''approved'', PBool True), (''documentDate'', PStr ''2023-06-01T00:00:00''),
            (''fileExtension'', PStr ''pdf'')]"

definition example_broken_document_dict :: pyval where
  "example_broken_document_dict =
     PDict [(''title'', PStr ''Bilag''),
            (''sensitivity'', PStr ''Fortrolige''), (''documentType'', PStr ''Udgaaende''),
            (''description'', PStr ''uden id''),
            (''approved'', PBool True), (''documentDate'', PStr ''2023-06-02T00:00:00''),
            (''fileExtension'', PStr ''pdf'')]"

definition example_documents_answer :: "pyval list \<Rightarrow> pyval" where
  "example_documents_answer document_dicts = PDict [(''documents'', PList document_dicts)]"

text \<open>A document as \<open>upload_document\<close> and the caller would prepare it for attaching.\<close>

definition example_document :: NovaDocument where
  "example_document =
     \<lparr>uuid = PStr ''uuid-aa'', title = PStr ''Afgoerelse'', sensitivity = PStr ''Fortrolige'',
      document_type = PStr ''Udgaaende'', description = PNone, approved = PBool True,
      document_date = PStr ''2023-06-01T00:00:00'', file_extension = PStr ''pdf''\<rparr>"

text \<open>The answer of the token endpoint that grants a token for the given number of seconds.\<close>

definition example_token_answer :: "int \<Rightarrow> pyval" where
  "example_token_answer lifetime =
     PDict [(''access_token'', PStr ''fresh-token''), (''expires_in'', PInt lifetime)]"

lemmas example_defs = example_client_def example_world_def example_server_def failing_server_def
  status_server_def

section \<open>The token step\<close>

lemma timedelta_30: "timedelta_seconds 30 = Inr 30000000"
  by (simp add: timedelta_seconds_def)

text \<open>A token exchange sends its one request; it changes nothing else but the clock.\<close>

lemma get_new_token_world:
  "get_new_token cid secret w = (r, w') \<Longrightarrow>
     sent w' = sent w @ [token_request cid secret] \<and>
     w' = w\<lparr>clock_reads := clock_reads w', sent := sent w'\<rparr>"
  by (auto simp: get_new_token_def requests_send_def datetime_now_def
           split: prod.splits sum.splits option.splits)

lemma get_bearer_token_ids:
  "get_bearer_token self w = (r, self', w') \<Longrightarrow>
     client_id self' = client_id self \<and> client_secret self' = client_secret self"
  by (auto simp: get_bearer_token_def timedelta_30 split: prod.splits sum.splits if_splits)

lemma get_bearer_token_cached:
  "get_bearer_token self w = (r, self', w') \<Longrightarrow>
     \<not> token_expiry_date self + 30000000 < clock w (clock_reads w) \<Longrightarrow> self' = self"
  by (auto simp: get_bearer_token_def timedelta_30 datetime_add_def datetime_now_def
           split: prod.splits sum.splits if_splits)

lemma get_bearer_token_world:
  "get_bearer_token self w = (r, self', w') \<Longrightarrow>
     (sent w' = sent w \<or>
      sent w' = sent w @ [token_request (client_id self) (client_secret self)]) \<and>
     w' = w\<lparr>clock_reads := clock_reads w', sent := sent w'\<rparr>"
  by (auto simp: get_bearer_token_def timedelta_30 datetime_now_def
           split: prod.splits sum.splits if_splits dest!: get_new_token_world)

section \<open>Case search without a search term\<close>

text \<open>
  C2.  A call of \<open>get_cases\<close> in which \<open>cpr\<close>, \<open>case_number\<close> and \<open>case_title\<close> are all
  absent raises \<open>ValueError\<close>; the client is unchanged and so is the world: no request
  has been sent, no identifier drawn, the clock not read.
\<close>

theorem get_cases_no_search_terms:
  "get_cases self w None None None = (Inl (ValueError ''No search terms given.''), self, w)"
  by (simp add: get_cases_def truthy_def)

text \<open>
  C9.  Absence is decided by truthiness: when each of \<open>cpr\<close>, \<open>case_number\<close> and
  \<open>case_title\<close> is \<open>None\<close> or the empty string, \<open>get_cases\<close> raises \<open>ValueError\<close> and
  leaves client and world as they were (no request sent), exactly as the call without
  arguments does.
\<close>

theorem get_cases_empty_search_terms:
  assumes "cpr = None \<or> cpr = Some []"
    and "case_number' = None \<or> case_number' = Some []"
    and "case_title = None \<or> case_title = Some []"
  shows "get_cases self w cpr case_number' case_title
           = (Inl (ValueError ''No search terms given.''), self, w)
         \<and> get_cases self w cpr case_number' case_title = get_cases self w None None None"
  using assms by (auto simp: get_cases_def truthy_def)

theorem get_cases_empty_search_terms_witness:
  "get_cases (example_client 0) (example_world (failing_server 500)) (Some []) None (Some [])
     = (Inl (ValueError ''No search terms given.''), example_client 0,
        example_world (failing_server 500))
   \<and> get_cases (example_client 0) (example_world (failing_server 500)) (Some []) None (Some [])
     = get_cases (example_client 0) (example_world (failing_server 500)) None None None"
  by (rule get_cases_empty_search_terms) simp_all

section \<open>Mapping a case-search answer\<close>

lemma has_key_dict: "has_key obj key \<Longrightarrow> \<exists>items v. obj = PDict items \<and> map_of items key = Some v"
  by (auto simp: has_key_def py_getitem_def split: pyval.splits option.splits)

lemma has_key_getitem: "has_key obj key \<Longrightarrow> \<exists>v. py_getitem obj key = Inr v"
  by (auto simp: has_key_def split: sum.splits)

lemma has_key2_getitem:
  "has_key2 obj k1 k2 \<Longrightarrow> \<exists>v u. py_getitem obj k1 = Inr v \<and> py_getitem v k2 = Inr u"
  by (auto simp: has_key2_def has_key_def split: sum.splits)

lemma party_of_dict_shape:
  assumes "party_shape p"
  shows "\<exists>party. party_of_dict p = Inr party \<and> party_matches p party"
proof -
  from assms obtain items where p: "p = PDict items"
    unfolding party_shape_def by (blast dest: has_key_dict)
  from assms obtain a b c where
    "py_getitem p ''identificationType'' = Inr a"
    "py_getitem p ''identification'' = Inr b"
    "py_getitem p ''partyRole'' = Inr c"
    unfolding party_shape_def by (blast dest: has_key_getitem)
  then show ?thesis
    by (simp add: party_of_dict_def party_matches_def p py_get_def py_getitem_def
             split: option.splits)
qed

lemma parties_loop_shape:
  "list_all party_shape ps \<Longrightarrow>
     \<exists>new. parties_loop ps acc = Inr (acc @ new) \<and> list_all2 party_matches ps new"
proof (induction ps arbitrary: acc)
  case Nil
  then show ?case by simp
next
  case (Cons p ps)
  from Cons.prems obtain party where p: "party_of_dict p = Inr party" "party_matches p party"
    using party_of_dict_shape by auto
  from Cons.prems have "list_all party_shape ps" by simp
  from Cons.IH[OF this, of "acc @ [party]"] obtain new where
    "parties_loop ps (acc @ [party]) = Inr ((acc @ [party]) @ new)" "list_all2 party_matches ps new"
    by blast
  with p show ?case by (intro exI[of _ "party # new"]) simp
qed

lemma case_of_dict_shape:
  assumes "case_shape c"
  shows "\<exists>nc. case_of_dict c = Inr nc \<and> parties_match c nc"
proof -
  from assms obtain ps where ps: "py_getitem c ''caseParties'' = Inr (PList ps)"
    and all: "list_all party_shape ps"
    by (auto simp: case_shape_def split: sum.splits pyval.splits)
  from parties_loop_shape[OF all, of "[]"] obtain parties where
    loop: "parties_loop ps [] = Inr parties" and m: "list_all2 party_matches ps parties"
    by auto
  from assms obtain c1 v1 where k1: "py_getitem c ''common'' = Inr c1" "py_getitem c1 ''uuid'' = Inr v1"
    unfolding case_shape_def by (blast dest: has_key2_getitem)
  from assms obtain c2 v2 where k2: "py_getitem c ''caseAttributes'' = Inr c2" "py_getitem c2 ''title'' = Inr v2"
    unfolding case_shape_def by (blast dest: has_key2_getitem)
  from assms obtain c3 v3 where k3: "py_getitem c ''caseAttributes'' = Inr c3" "py_getitem c3 ''caseDate'' = Inr v3"
    unfolding case_shape_def by (blast dest: has_key2_getitem)
  from assms obtain c4 v4 where k4: "py_getitem c ''caseAttributes'' = Inr c4" "py_getitem c4 ''userFriendlyCaseNumber'' = Inr v4"
    unfolding case_shape_def by (blast dest: has_key2_getitem)
  from assms obtain c5 v5 where k5: "py_getitem c ''state'' = Inr c5" "py_getitem c5 ''activeCode'' = Inr v5"
    unfolding case_shape_def by (blast dest: has_key2_getitem)
  from assms obtain c6 v6 where k6: "py_getitem c ''state'' = Inr c6" "py_getitem c6 ''progressState'' = Inr v6"
    unfolding case_shape_def by (blast dest: has_key2_getitem)
  from k2 k3 k4 have e: "c3 = c2" "c4 = c2" by simp_all
  from k5 k6 have e': "c6 = c5" by simp
  show ?thesis
    using ps loop m k1 k2 k3 k4 k5 k6
    by (simp add: case_of_dict_def parties_match_def py_iter_def e e')
qed

lemma cases_loop_shape:
  "list_all case_shape cs \<Longrightarrow>
     \<exists>new. cases_loop cs acc = Inr (acc @ new) \<and> list_all2 parties_match cs new"
proof (induction cs arbitrary: acc)
  case Nil
  then show ?case by simp
next
  case (Cons c cs)
  from Cons.prems obtain nc where c: "case_of_dict c = Inr nc" "parties_match c nc"
    using case_of_dict_shape by auto
  from Cons.prems have "list_all case_shape cs" by simp
  from Cons.IH[OF this, of "acc @ [nc]"] obtain new where
    "cases_loop cs (acc @ [nc]) = Inr ((acc @ [nc]) @ new)" "list_all2 parties_match cs new"
    by blast
  with c show ?case by (intro exI[of _ "nc # new"]) simp
qed

text \<open>
  C3.  When the answer to the case search is a success and has the documented shape,
  \<open>get_cases\<close> returns one \<open>NovaCase\<close> for each case of the answer, in the order
  received, and the parties of each case object are the elements of its \<open>caseParties\<close>,
  one \<open>CaseParty\<close> for each element and in the order received; a party without
  \<open>name\<close> gets the name \<open>None\<close>.
\<close>

theorem get_cases_maps_parties:
  assumes "truthy cpr \<or> truthy case_number' \<or> truthy case_title"
    and "get_bearer_token self (snd (uuid4 w)) = (Inr token, self1, w2)"
    and "server w2 (length (sent w2))
           (get_cases_request (format_value w2 token) (fst (uuid4 w)) cpr case_number' case_title)
         = Some resp"
    and "\<not> (400 \<le> status_code resp \<and> status_code resp < 600)"
    and "json_body resp = Some j"
    and "py_getitem j ''cases'' = Inr (PList case_dicts)"
    and "list_all case_shape case_dicts"
  shows "\<exists>cases. fst (get_cases self w cpr case_number' case_title) = Inr cases
           \<and> list_all2 parties_match case_dicts cases"
proof -
  from cases_loop_shape[OF assms(7), of "[]"] obtain cases where
    "cases_loop case_dicts [] = Inr cases" "list_all2 parties_match case_dicts cases"
    by auto
  with assms(1-6) show ?thesis
    by (auto simp: get_cases_def requests_send_def raise_for_status_def cases_of_response_def
                   response_json_def py_iter_def split: prod.splits)
qed

theorem get_cases_maps_parties_witness:
  "\<exists>cases. fst (get_cases (example_client 63900190800000000)
                   (example_world (example_server PNone example_cases_answer))
                   (Some ''0101011234'') None None) = Inr cases
           \<and> list_all2 parties_match [example_case_dict] cases"
proof -
  let ?C = "example_client 63900190800000000"
  let ?W = "example_world (example_server PNone example_cases_answer)"
  have a1: "truthy (Some ''0101011234'') \<or> truthy None \<or> truthy None"
    by (simp add: truthy_def)
  have a2: "get_bearer_token ?C (snd (uuid4 ?W))
              = (Inr (PStr ''cached-token''), ?C, (snd (uuid4 ?W))\<lparr>clock_reads := 1\<rparr>)"
    by (simp add: get_bearer_token_def timedelta_30 datetime_add_def DATETIME_END_def
          datetime_now_def uuid4_def example_defs)
  have a3: "server ((snd (uuid4 ?W))\<lparr>clock_reads := 1\<rparr>)
              (length (sent ((snd (uuid4 ?W))\<lparr>clock_reads := 1\<rparr>)))
              (get_cases_request
                 (format_value ((snd (uuid4 ?W))\<lparr>clock_reads := 1\<rparr>) (PStr ''cached-token''))
                 (fst (uuid4 ?W)) (Some ''0101011234'') None None)
            = Some \<lparr>status_code = 200, json_body = Some example_cases_answer,
                     content = ''content''\<rparr>"
    by (simp add: uuid4_def example_defs get_cases_request_def cases_url_def token_url_def
          DOMAIN_def)
  have a4: "\<not> (400 \<le> status_code \<lparr>status_code = 200, json_body = Some example_cases_answer,
                     content = ''content''\<rparr>
               \<and> status_code \<lparr>status_code = 200, json_body = Some example_cases_answer,
                     content = ''content''\<rparr> < 600)"
    by simp
  have a5: "json_body \<lparr>status_code = 200, json_body = Some example_cases_answer,
                     content = ''content''\<rparr> = Some example_cases_answer"
    by simp
  have a6: "py_getitem example_cases_answer ''cases'' = Inr (PList [example_case_dict])"
    by (simp add: example_cases_answer_def py_getitem_def)
  have a7: "list_all case_shape [example_case_dict]"
    by (simp add: case_shape_def party_shape_def has_key2_def has_key_def py_getitem_def
          example_case_dict_def)
  from get_cases_maps_parties[OF a1 a2 a3 a4 a5 a6 a7] show ?thesis .
qed

text \<open>The example answer: two parties, in their order, the second with the name \<open>None\<close>.\<close>

lemma get_cases_example:
  "fst (get_cases (example_client 63900190800000000)
          (example_world (example_server PNone example_cases_answer))
          (Some ''0101011234'') None None)
   = Inr [\<lparr>NovaCase.uuid = PStr ''case-1'', title = PStr ''Flytning'',
           case_date = PStr ''2023-06-01T00:00:00'', case_number = PStr ''S2023-61078'',
           active_code = PStr ''Active'', progress_state = PStr ''Opstaaet'',
           case_parties =
             [\<lparr>identification_type = PStr ''CprNummer'', identification = PStr ''0101011234'',
               role = PStr ''PRI'', name = PStr ''Anna''\<rparr>,
              \<lparr>identification_type = PStr ''CprNummer'', identification = PStr ''0202021234'',
               role = PStr ''SEC'', name = PNone\<rparr>]\<rparr>]"
  by (simp add: get_cases_def truthy_def uuid4_def get_bearer_token_def timedelta_30
        datetime_add_def DATETIME_END_def datetime_now_def example_defs requests_send_def
        raise_for_status_def cases_of_response_def response_json_def example_cases_answer_def
        example_case_dict_def py_getitem_def py_iter_def case_of_dict_def party_of_dict_def
        py_get_def get_cases_request_def cases_url_def token_url_def DOMAIN_def)

section \<open>Mapping a document-list answer\<close>

lemma document_of_dict_complete:
  assumes "is_dict d" and "\<forall>k\<in>set required_document_fields. has_key d k"
  shows "\<exists>doc. document_of_dict d = Inr doc \<and> description_matches d doc"
proof -
  from assms(1) obtain items where d: "d = PDict items"
    by (auto simp: is_dict_def split: pyval.splits)
  from assms(2) show ?thesis
    by (auto simp: d required_document_fields_def has_key_def document_of_dict_def
          py_getitem_def py_get_def description_matches_def split: option.splits)
qed

lemma document_of_dict_result:
  assumes "is_dict d"
  shows "(\<exists>doc. document_of_dict d = Inr doc \<and> (\<forall>k\<in>set required_document_fields. has_key d k))
       \<or> (\<exists>k\<in>set required_document_fields. document_of_dict d = Inl (KeyError k))"
proof -
  from assms obtain items where d: "d = PDict items"
    by (auto simp: is_dict_def split: pyval.splits)
  show ?thesis
    by (simp add: d required_document_fields_def has_key_def document_of_dict_def
          py_getitem_def py_get_def split: option.splits)
qed

lemma documents_loop_missing:
  "list_all is_dict ds \<Longrightarrow>
   \<exists>d\<in>set ds. \<exists>k\<in>set required_document_fields. \<not> has_key d k \<Longrightarrow>
   \<exists>k\<in>set required_document_fields. documents_loop ds acc = Inl (KeyError k)"
proof (induction ds arbitrary: acc)
  case Nil
  then show ?case by simp
next
  case (Cons d ds)
  from Cons.prems(1) have d: "is_dict d" and ds: "list_all is_dict ds" by simp_all
  from document_of_dict_result[OF d] show ?case
  proof
    assume "\<exists>doc. document_of_dict d = Inr doc \<and> (\<forall>k\<in>set required_document_fields. has_key d k)"
    then obtain doc where doc: "document_of_dict d = Inr doc"
      and full: "\<forall>k\<in>set required_document_fields. has_key d k" by blast
    from full Cons.prems(2)
    have "\<exists>d\<in>set ds. \<exists>k\<in>set required_document_fields. \<not> has_key d k" by auto
    from Cons.IH[OF ds this, of "acc @ [doc]"] doc show ?thesis by simp
  next
    assume "\<exists>k\<in>set required_document_fields. document_of_dict d = Inl (KeyError k)"
    then show ?thesis by auto
  qed
qed

lemma documents_loop_complete:
  "list_all is_dict ds \<Longrightarrow>
   \<forall>d\<in>set ds. \<forall>k\<in>set required_document_fields. has_key d k \<Longrightarrow>
   \<exists>new. documents_loop ds acc = Inr (acc @ new) \<and> list_all2 description_matches ds new"
proof (induction ds arbitrary: acc)
  case Nil
  then show ?case by simp
next
  case (Cons d ds)
  from Cons.prems have d: "is_dict d" "\<forall>k\<in>set required_document_fields. has_key d k"
    and ds: "list_all is_dict ds" "\<forall>d\<in>set ds. \<forall>k\<in>set required_document_fields. has_key d k"
    by simp_all
  from document_of_dict_complete[OF d] obtain doc where
    doc: "document_of_dict d = Inr doc" "description_matches d doc" by blast
  from Cons.IH[OF ds, of "acc @ [doc]"] obtain new where
    "documents_loop ds (acc @ [doc]) = Inr ((acc @ [doc]) @ new)"
    "list_all2 description_matches ds new" by blast
  with doc show ?case by (intro exI[of _ "doc # new"]) simp
qed

lemma get_documents_mapping:
  assumes "get_bearer_token self (snd (uuid4 w)) = (Inr token, self1, w2)"
    and "server w2 (length (sent w2))
           (get_documents_request (format_value w2 token) (fst (uuid4 w)) case_uuid)
         = Some resp"
    and "\<not> (400 \<le> status_code resp \<and> status_code resp < 600)"
    and "json_body resp = Some j"
    and "py_getitem j ''documents'' = Inr (PList document_dicts)"
  shows "fst (get_documents self w case_uuid) = documents_loop document_dicts []"
  using assms
  by (auto simp: get_documents_def requests_send_def raise_for_status_def
        documents_of_response_def response_json_def py_iter_def split: prod.splits)

text \<open>
  C4.  When the answer to the document list is a success whose \<open>documents\<close> are
  objects, and some document lacks one of the required fields (\<open>documentUuid\<close>,
  \<open>title\<close>, \<open>sensitivity\<close>, \<open>documentType\<close>, \<open>approved\<close>, \<open>documentDate\<close>,
  \<open>fileExtension\<close>), \<open>get_documents\<close> raises the \<open>KeyError\<close> of a required field (an error
  other than the \<open>HTTPError\<close> of a failed request) and returns no list at all, not
  even the documents mapped before.  When no required field is missing it returns one
  document object for each element, in order, and a document without \<open>description\<close>
  gets the description \<open>None\<close>.
\<close>

theorem get_documents_missing_field:
  assumes "get_bearer_token self (snd (uuid4 w)) = (Inr token, self1, w2)"
    and "server w2 (length (sent w2))
           (get_documents_request (format_value w2 token) (fst (uuid4 w)) case_uuid)
         = Some resp"
    and "\<not> (400 \<le> status_code resp \<and> status_code resp < 600)"
    and "json_body resp = Some j"
    and "py_getitem j ''documents'' = Inr (PList document_dicts)"
    and "list_all is_dict document_dicts"
  shows "((\<exists>d\<in>set document_dicts. \<exists>k\<in>set required_document_fields. \<not> has_key d k) \<longrightarrow>
            (\<exists>k\<in>set required_document_fields.
               fst (get_documents self w case_uuid) = Inl (KeyError k)))
       \<and> ((\<forall>d\<in>set document_dicts. \<forall>k\<in>set required_document_fields. has_key d k) \<longrightarrow>
            (\<exists>documents. fst (get_documents self w case_uuid) = Inr documents
               \<and> list_all2 description_matches document_dicts documents))"
proof -
  have r: "fst (get_documents self w case_uuid) = documents_loop document_dicts []"
    using assms(1-5) by (rule get_documents_mapping)
  show ?thesis
    using documents_loop_missing[OF assms(6), of "[]"]
          documents_loop_complete[OF assms(6), of "[]"]
    unfolding r by auto
qed

lemma example_token_cached:
  "get_bearer_token (example_client 63900190800000000) (snd (uuid4 (example_world srv)))
     = (Inr (PStr ''cached-token''), example_client 63900190800000000,
        (snd (uuid4 (example_world srv)))\<lparr>clock_reads := 1\<rparr>)"
  by (simp add: get_bearer_token_def timedelta_30 datetime_add_def DATETIME_END_def
        datetime_now_def uuid4_def example_defs)

lemma example_documents_served:
  "server ((snd (uuid4 (example_world (example_server PNone answer))))\<lparr>clock_reads := 1\<rparr>)
     (length (sent ((snd (uuid4 (example_world (example_server PNone answer))))
                      \<lparr>clock_reads := 1\<rparr>)))
     (get_documents_request bearer transaction_id case_uuid)
   = Some \<lparr>status_code = 200, json_body = Some answer, content = ''content''\<rparr>"
  by (simp add: uuid4_def example_defs get_documents_request_def documents_url_def
        token_url_def DOMAIN_def)

theorem get_documents_missing_field_witness:
  "(\<exists>k\<in>set required_document_fields.
      fst (get_documents (example_client 63900190800000000)
             (example_world (example_server PNone
                (example_documents_answer [example_document_dict, example_broken_document_dict])))
             ''case-1'') = Inl (KeyError k))
   \<and> (\<exists>documents.
        fst (get_documents (example_client 63900190800000000)
               (example_world (example_server PNone
                  (example_documents_answer [example_document_dict])))
               ''case-1'') = Inr documents
        \<and> list_all2 description_matches [example_document_dict] documents)"
proof -
  let ?r = "\<lambda>answer. \<lparr>status_code = 200, json_body = Some answer, content = ''content''\<rparr>"
  have st: "\<not> (400 \<le> status_code (?r answer) \<and> status_code (?r answer) < 600)" for answer
    by simp
  have js: "json_body (?r answer) = Some answer" for answer
    by simp
  have ds: "py_getitem (example_documents_answer dicts) ''documents'' = Inr (PList dicts)"
    for dicts
    by (simp add: example_documents_answer_def py_getitem_def)
  have d2: "list_all is_dict [example_document_dict, example_broken_document_dict]"
    by (simp add: is_dict_def example_document_dict_def example_broken_document_dict_def)
  have d1: "list_all is_dict [example_document_dict]"
    by (simp add: is_dict_def example_document_dict_def)
  have missing: "\<exists>d\<in>set [example_document_dict, example_broken_document_dict].
                   \<exists>k\<in>set required_document_fields. \<not> has_key d k"
    by (simp add: required_document_fields_def has_key_def py_getitem_def
          example_broken_document_dict_def)
  have complete: "\<forall>d\<in>set [example_document_dict].
                    \<forall>k\<in>set required_document_fields. has_key d k"
    by (simp add: required_document_fields_def has_key_def py_getitem_def
          example_document_dict_def)
  from get_documents_missing_field
         [OF example_token_cached example_documents_served st js ds d2] missing
  have one: "\<exists>k\<in>set required_document_fields.
      fst (get_documents (example_client 63900190800000000)
             (example_world (example_server PNone
                (example_documents_answer [example_document_dict, example_broken_document_dict])))
             ''case-1'') = Inl (KeyError k)"
    by blast
  from get_documents_missing_field
         [OF example_token_cached example_documents_served st js ds d1] complete
  have two: "\<exists>documents.
        fst (get_documents (example_client 63900190800000000)
               (example_world (example_server PNone
                  (example_documents_answer [example_document_dict])))
               ''case-1'') = Inr documents
        \<and> list_all2 description_matches [example_document_dict] documents"
    by blast
  from one two show ?thesis ..
qed

text \<open>
  The example answers: the broken document makes the call fail with the \<open>KeyError\<close> of
  its missing field; the document without description is mapped with \<open>None\<close>.
\<close>

lemma get_documents_example:
  "fst (get_documents (example_client 63900190800000000)
          (example_world (example_server PNone
             (example_documents_answer [example_document_dict, example_broken_document_dict])))
          ''case-1'') = Inl (KeyError ''documentUuid'')
   \<and> fst (get_documents (example_client 63900190800000000)
          (example_world (example_server PNone
             (example_documents_answer [example_document_dict])))
          ''case-1'')
     = Inr [\<lparr>uuid = PStr ''doc-1'', title = PStr ''Afgoerelse'',
             sensitivity = PStr ''Fortrolige'', document_type = PStr ''Udgaaende'',
             description = PNone, approved = PBool True,
             document_date = PStr ''2023-06-01T00:00:00'', file_extension = PStr ''pdf''\<rparr>]"
  by (simp add: get_documents_mapping[OF example_token_cached example_documents_served]
        example_documents_answer_def py_getitem_def document_of_dict_def py_get_def
        example_document_dict_def example_broken_document_dict_def)

section \<open>The requests of the two list operations\<close>

lemma paging_get_cases_payload:
  "py_getitem (get_cases_payload transaction_id cpr case_number' case_title) ''paging''
     = Inr (PDict [(''startRow'', PInt 1), (''numberOfRows'', PInt 100)])"
  by (simp add: get_cases_payload_def py_getitem_def)

lemma paging_get_documents_payload:
  "py_getitem (get_documents_payload transaction_id case_uuid) ''paging''
     = Inr (PDict [(''startRow'', PInt 1), (''numberOfRows'', PInt 100)])"
  by (simp add: get_documents_payload_def py_getitem_def)

lemma new_requests_append: "sent w' = sent w @ rs \<Longrightarrow> new_requests w w' = rs"
  by (simp add: new_requests_def)

lemma get_cases_sent:
  assumes "get_cases self w cpr case_number' case_title = (r, self', w')"
  shows "((\<exists>e. r = Inl e)
            \<and> new_requests w w'
                  \<in> {[], [token_request (client_id self) (client_secret self)]})
         \<or> (\<exists>bearer transaction_id.
               new_requests w w'
                 \<in> {[get_cases_request bearer transaction_id cpr case_number' case_title],
                     [token_request (client_id self) (client_secret self),
                      get_cases_request bearer transaction_id cpr case_number' case_title]})"
proof (cases "truthy cpr \<or> truthy case_number' \<or> truthy case_title")
  case False
  with assms show ?thesis by (auto simp: get_cases_def new_requests_def)
next
  case True
  obtain tok self1 w2 where t: "get_bearer_token self (snd (uuid4 w)) = (tok, self1, w2)"
    by (metis prod_cases3)
  from get_bearer_token_world[OF t]
  have pre: "sent w2 = sent w \<or>
             sent w2 = sent w @ [token_request (client_id self) (client_secret self)]"
    by (auto simp: uuid4_def)
  show ?thesis
  proof (cases tok)
    case (Inl e)
    with assms True t have "w' = w2" "r = Inl e"
      by (auto simp: get_cases_def split: prod.splits)
    with pre show ?thesis
      by (auto simp: new_requests_def)
  next
    case (Inr token)
    with assms True t
    have "sent w' = sent w2 @ [get_cases_request (format_value w2 token) (fst (uuid4 w))
                                 cpr case_number' case_title]"
      by (auto simp: get_cases_def requests_send_def split: prod.splits sum.splits)
    with pre have "new_requests w w'
        \<in> {[get_cases_request (format_value w2 token) (fst (uuid4 w)) cpr case_number' case_title],
            [token_request (client_id self) (client_secret self),
             get_cases_request (format_value w2 token) (fst (uuid4 w)) cpr case_number' case_title]}"
      by (auto simp: new_requests_def)
    then show ?thesis by blast
  qed
qed

lemma get_documents_sent:
  assumes "get_documents self w case_uuid = (r, self', w')"
  shows "((\<exists>e. r = Inl e)
            \<and> new_requests w w'
                  \<in> {[], [token_request (client_id self) (client_secret self)]})
         \<or> (\<exists>bearer transaction_id.
               new_requests w w'
                 \<in> {[get_documents_request bearer transaction_id case_uuid],
                     [token_request (client_id self) (client_secret self),
                      get_documents_request bearer transaction_id case_uuid]})"
proof -
  obtain tok self1 w2 where t: "get_bearer_token self (snd (uuid4 w)) = (tok, self1, w2)"
    by (metis prod_cases3)
  from get_bearer_token_world[OF t]
  have pre: "sent w2 = sent w \<or>
             sent w2 = sent w @ [token_request (client_id self) (client_secret self)]"
    by (auto simp: uuid4_def)
  show ?thesis
  proof (cases tok)
    case (Inl e)
    with assms t have "w' = w2" "r = Inl e"
      by (auto simp: get_documents_def split: prod.splits)
    with pre show ?thesis
      by (auto simp: new_requests_def)
  next
    case (Inr token)
    with assms t
    have "sent w' = sent w2 @ [get_documents_request (format_value w2 token) (fst (uuid4 w))
                                 case_uuid]"
      by (auto simp: get_documents_def requests_send_def split: prod.splits sum.splits)
    with pre have "new_requests w w'
        \<in> {[get_documents_request (format_value w2 token) (fst (uuid4 w)) case_uuid],
            [token_request (client_id self) (client_secret self),
             get_documents_request (format_value w2 token) (fst (uuid4 w)) case_uuid]}"
      by (auto simp: new_requests_def)
    then show ?thesis by blast
  qed
qed

text \<open>
  C5.  Whatever the arguments, every request that \<open>get_cases\<close> or \<open>get_documents\<close>
  sends, apart from the token request of a refresh, has a JSON payload whose \<open>paging\<close>
  is \<open>startRow = 1\<close> and \<open>numberOfRows = 100\<close>; and a call that returns a result has
  sent such a request to its endpoint.
\<close>

theorem paging_fixed:
  "(\<forall>rq\<in>set (new_requests w (snd (snd (get_cases self w cpr case_number' case_title)))).
      rq = token_request (client_id self) (client_secret self)
      \<or> (\<exists>payload. body rq = Json payload
            \<and> py_getitem payload ''paging''
                = Inr (PDict [(''startRow'', PInt 1), (''numberOfRows'', PInt 100)])))
   \<and> (\<forall>cases. fst (get_cases self w cpr case_number' case_title) = Inr cases \<longrightarrow>
        (\<exists>rq\<in>set (new_requests w (snd (snd (get_cases self w cpr case_number' case_title)))).
           url rq = cases_url))
   \<and> (\<forall>rq\<in>set (new_requests w (snd (snd (get_documents self w case_uuid)))).
      rq = token_request (client_id self) (client_secret self)
      \<or> (\<exists>payload. body rq = Json payload
            \<and> py_getitem payload ''paging''
                = Inr (PDict [(''startRow'', PInt 1), (''numberOfRows'', PInt 100)])))
   \<and> (\<forall>documents. fst (get_documents self w case_uuid) = Inr documents \<longrightarrow>
        (\<exists>rq\<in>set (new_requests w (snd (snd (get_documents self w case_uuid)))).
           url rq = documents_url))"
proof -
  obtain r1 s1 w1 where c: "get_cases self w cpr case_number' case_title = (r1, s1, w1)"
    by (metis prod_cases3)
  obtain r2 s2 w2 where d: "get_documents self w case_uuid = (r2, s2, w2)"
    by (metis prod_cases3)
  from get_cases_sent[OF c] have 1:
    "\<forall>rq\<in>set (new_requests w w1).
      rq = token_request (client_id self) (client_secret self)
      \<or> (\<exists>payload. body rq = Json payload
            \<and> py_getitem payload ''paging''
                = Inr (PDict [(''startRow'', PInt 1), (''numberOfRows'', PInt 100)]))"
    by (auto simp: get_cases_request_def paging_get_cases_payload)
  from get_cases_sent[OF c] have 2:
    "\<forall>cases. r1 = Inr cases \<longrightarrow> (\<exists>rq\<in>set (new_requests w w1). url rq = cases_url)"
    by (auto simp: get_cases_request_def)
  from get_documents_sent[OF d] have 3:
    "\<forall>rq\<in>set (new_requests w w2).
      rq = token_request (client_id self) (client_secret self)
      \<or> (\<exists>payload. body rq = Json payload
            \<and> py_getitem payload ''paging''
                = Inr (PDict [(''startRow'', PInt 1), (''numberOfRows'', PInt 100)]))"
    by (auto simp: get_documents_request_def paging_get_documents_payload)
  from get_documents_sent[OF d] have 4:
    "\<forall>documents. r2 = Inr documents \<longrightarrow> (\<exists>rq\<in>set (new_requests w w2). url rq = documents_url)"
    by (auto simp: get_documents_request_def)
  from 1 2 3 4 show ?thesis
    unfolding c d by simp
qed

lemma get_cases_example_requests:
  "new_requests (example_world (example_server PNone example_cases_answer))
     (snd (snd (get_cases (example_client 63900190800000000)
                  (example_world (example_server PNone example_cases_answer))
                  (Some ''0101011234'') None None)))
   = [get_cases_request ''cached-token'' ''uuid-a'' (Some ''0101011234'') None None]"
  by (simp add: get_cases_def truthy_def uuid4_def get_bearer_token_def timedelta_30
        datetime_add_def DATETIME_END_def datetime_now_def example_defs requests_send_def
        raise_for_status_def new_requests_def format_value_def)

lemma get_documents_example_requests:
  "new_requests (example_world (example_server PNone (example_documents_answer [example_document_dict])))
     (snd (snd (get_documents (example_client 63900190800000000)
                  (example_world (example_server PNone (example_documents_answer [example_document_dict])))
                  ''case-1'')))
   = [get_documents_request ''cached-token'' ''uuid-a'' ''case-1'']"
  by (simp add: get_documents_def uuid4_def get_bearer_token_def timedelta_30
        datetime_add_def DATETIME_END_def datetime_now_def example_defs requests_send_def
        raise_for_status_def new_requests_def format_value_def)

theorem paging_fixed_witness:
  "(\<exists>payload.
      body (get_cases_request ''cached-token'' ''uuid-a'' (Some ''0101011234'') None None)
        = Json payload
      \<and> py_getitem payload ''paging''
          = Inr (PDict [(''startRow'', PInt 1), (''numberOfRows'', PInt 100)]))
   \<and> (\<exists>rq\<in>set (new_requests (example_world (example_server PNone example_cases_answer))
                  (snd (snd (get_cases (example_client 63900190800000000)
                               (example_world (example_server PNone example_cases_answer))
                               (Some ''0101011234'') None None)))).
         url rq = cases_url)
   \<and> (\<exists>payload.
        body (get_documents_request ''cached-token'' ''uuid-a'' ''case-1'') = Json payload
        \<and> py_getitem payload ''paging''
            = Inr (PDict [(''startRow'', PInt 1), (''numberOfRows'', PInt 100)]))
   \<and> (\<exists>rq\<in>set (new_requests
                  (example_world (example_server PNone
                     (example_documents_answer [example_document_dict])))
                  (snd (snd (get_documents (example_client 63900190800000000)
                               (example_world (example_server PNone
                                  (example_documents_answer [example_document_dict])))
                               ''case-1'')))).
         url rq = documents_url)"
proof -
  let ?C = "example_client 63900190800000000"
  let ?W1 = "example_world (example_server PNone example_cases_answer)"
  let ?W2 = "example_world (example_server PNone
               (example_documents_answer [example_document_dict]))"
  let ?rq1 = "get_cases_request ''cached-token'' ''uuid-a'' (Some ''0101011234'') None None"
  let ?rq2 = "get_documents_request ''cached-token'' ''uuid-a'' ''case-1''"
  note fixed = paging_fixed[of ?W1 ?C "Some ''0101011234''" None None "''case-1''"]
  note fixed' = paging_fixed[of ?W2 ?C "Some ''0101011234''" None None "''case-1''"]
  have m1: "?rq1 \<in> set (new_requests ?W1
              (snd (snd (get_cases ?C ?W1 (Some ''0101011234'') None None))))"
    by (simp add: get_cases_example_requests)
  have n1: "?rq1 \<noteq> token_request (client_id ?C) (client_secret ?C)"
    by (simp add: get_cases_request_def token_request_def)
  have m2: "?rq2 \<in> set (new_requests ?W2 (snd (snd (get_documents ?C ?W2 ''case-1''))))"
    by (simp add: get_documents_example_requests)
  have n2: "?rq2 \<noteq> token_request (client_id ?C) (client_secret ?C)"
    by (simp add: get_documents_request_def token_request_def)
  have r1: "\<exists>cases. fst (get_cases ?C ?W1 (Some ''0101011234'') None None) = Inr cases"
    by (simp add: get_cases_example)
  have r2: "\<exists>documents. fst (get_documents ?C ?W2 ''case-1'') = Inr documents"
    by (simp add: get_documents_example)
  from fixed m1 n1 have a: "\<exists>payload. body ?rq1 = Json payload
      \<and> py_getitem payload ''paging''
          = Inr (PDict [(''startRow'', PInt 1), (''numberOfRows'', PInt 100)])"
    by blast
  from fixed r1 have b: "\<exists>rq\<in>set (new_requests ?W1
              (snd (snd (get_cases ?C ?W1 (Some ''0101011234'') None None)))). url rq = cases_url"
    by blast
  from fixed' m2 n2 have c: "\<exists>payload. body ?rq2 = Json payload
      \<and> py_getitem payload ''paging''
          = Inr (PDict [(''startRow'', PInt 1), (''numberOfRows'', PInt 100)])"
    by blast
  from fixed' r2 have d: "\<exists>rq\<in>set (new_requests ?W2
              (snd (snd (get_documents ?C ?W2 ''case-1'')))). url rq = documents_url"
    by blast
  from a b c d show ?thesis by blast
qed

section \<open>Attaching a document\<close>

lemma token_request_not_attach: "url (token_request cid secret) \<noteq> attach_url"
  by (simp add: token_request_def token_url_def attach_url_def DOMAIN_def)

lemma attach_document_to_case_sent:
  assumes "get_bearer_token self (snd (datetime_now (snd (uuid4 w)))) = (r, self1, w3)"
  shows "(\<forall>token. r = Inr token \<longrightarrow>
            attach_requests w
              (snd (snd (attach_document_to_case self w case_uuid document
                           security_unit_id security_unit_name)))
            = [attach_request (format_value w3 token)
                 (attach_payload (fst (uuid4 w)) case_uuid document
                    (strftime w (clock w (clock_reads w)))
                    (case security_unit_id of None \<Rightarrow> 818485 | Some i \<Rightarrow> i)
                    (case security_unit_name of None \<Rightarrow> ''Borgerservice'' | Some n \<Rightarrow> n))])
       \<and> (\<forall>e. r = Inl e \<longrightarrow>
            attach_requests w
              (snd (snd (attach_document_to_case self w case_uuid document
                           security_unit_id security_unit_name)))
            = []
            \<and> fst (attach_document_to_case self w case_uuid document
                      security_unit_id security_unit_name) = Inl e)"
proof -
  from get_bearer_token_world[OF assms]
  have pre: "sent w3 = sent w \<or>
             sent w3 = sent w @ [token_request (client_id self) (client_secret self)]"
    by (auto simp: uuid4_def datetime_now_def)
  show ?thesis
  proof (cases r)
    case (Inl e)
    with assms have "snd (snd (attach_document_to_case self w case_uuid document
                           security_unit_id security_unit_name)) = w3"
      and "fst (attach_document_to_case self w case_uuid document
                      security_unit_id security_unit_name) = Inl e"
      by (auto simp: attach_document_to_case_def Let_def split: prod.splits)
    with pre Inl show ?thesis
      by (auto simp: attach_requests_def new_requests_def token_request_not_attach)
  next
    case (Inr token)
    with assms
    have "sent (snd (snd (attach_document_to_case self w case_uuid document
                           security_unit_id security_unit_name)))
          = sent w3 @ [attach_request (format_value w3 token)
                 (attach_payload (fst (uuid4 w)) case_uuid document
                    (strftime w (clock w (clock_reads w)))
                    (case security_unit_id of None \<Rightarrow> 818485 | Some i \<Rightarrow> i)
                    (case security_unit_name of None \<Rightarrow> ''Borgerservice'' | Some n \<Rightarrow> n))]"
      by (auto simp: attach_document_to_case_def Let_def requests_send_def uuid4_def
            datetime_now_def split: prod.splits sum.splits)
    with pre Inr show ?thesis
      by (auto simp: attach_requests_def new_requests_def token_request_not_attach
            attach_request_def)
  qed
qed

lemma example_token_refresh_fails:
  "get_bearer_token (example_client 63900183600000000)
     (snd (datetime_now (snd (uuid4 (example_world (failing_server 401))))))
   = (Inl (HTTPError 401), example_client 63900183600000000,
      (example_world (failing_server 401))
        \<lparr>clock_reads := 2, uuid_draws := 1,
         sent := [token_request ''robot'' ''s3cret'']\<rparr>)"
  by (simp add: get_bearer_token_def timedelta_30 datetime_add_def DATETIME_END_def
        datetime_now_def uuid4_def example_defs get_new_token_def requests_send_def
        raise_for_status_def)

lemma example_token_cached_attach:
  "get_bearer_token (example_client 63900190800000000)
     (snd (datetime_now (snd (uuid4 (example_world srv)))))
   = (Inr (PStr ''cached-token''), example_client 63900190800000000,
      (example_world srv)\<lparr>clock_reads := 2, uuid_draws := 1\<rparr>)"
  by (simp add: get_bearer_token_def timedelta_30 datetime_add_def DATETIME_END_def
        datetime_now_def uuid4_def example_defs)

text \<open>
  C6, as stated, fails: a call sends no attach request at all when the token step raises.
  Here the cached token expired an hour ago and the token endpoint answers 401: the call
  raises \<open>HTTPError\<close> and the attach endpoint is never addressed.
\<close>

theorem attach_document_to_case_counterexample:
  "attach_requests (example_world (failing_server 401))
     (snd (snd (attach_document_to_case (example_client 63900183600000000)
                  (example_world (failing_server 401)) ''case-1'' example_document None None)))
   = []
   \<and> fst (attach_document_to_case (example_client 63900183600000000)
            (example_world (failing_server 401)) ''case-1'' example_document None None)
     = Inl (HTTPError 401)"
  by (simp add: attach_document_to_case_def Let_def get_bearer_token_def timedelta_30
        datetime_add_def DATETIME_END_def datetime_now_def uuid4_def example_defs
        get_new_token_def requests_send_def raise_for_status_def attach_requests_def
        new_requests_def token_request_not_attach)

text \<open>
  C6, amended.  When \<open>get_bearer_token\<close> returns a token, a call of
  \<open>attach_document_to_case\<close> sends exactly one attach request; the \<open>common.uuid\<close> of its
  payload is the uuid of the document given, its \<open>documentDate\<close> is the formatted reading
  of the clock at the call (not the date of the document), and its security unit is
  818485, "Borgerservice", unless the caller gives another.  When \<open>get_bearer_token\<close>
  raises, no attach request is sent and the call raises the same error.
\<close>

theorem attach_document_to_case_request:
  assumes "get_bearer_token self (snd (datetime_now (snd (uuid4 w)))) = (r, self1, w3)"
  shows "(\<forall>token. r = Inr token \<longrightarrow>
            (\<exists>rq payload common.
               attach_requests w
                 (snd (snd (attach_document_to_case self w case_uuid document
                              security_unit_id security_unit_name))) = [rq]
               \<and> body rq = Json payload
               \<and> py_getitem payload ''common'' = Inr common
               \<and> py_getitem common ''uuid'' = Inr (NovaDocument.uuid document)
               \<and> py_getitem payload ''documentDate''
                   = Inr (PStr (strftime w (clock w (clock_reads w))))
               \<and> py_getitem payload ''securityUnit''
                   = Inr (PDict [(''losIdentity'',
                        PDict [(''administrativeUnitId'',
                                  PInt (case security_unit_id of
                                          None \<Rightarrow> 818485 | Some i \<Rightarrow> i)),
                               (''fullName'',
                                  PStr (case security_unit_name of
                                          None \<Rightarrow> ''Borgerservice'' | Some n \<Rightarrow> n))])])))
       \<and> (\<forall>e. r = Inl e \<longrightarrow>
            attach_requests w
              (snd (snd (attach_document_to_case self w case_uuid document
                           security_unit_id security_unit_name)))
            = []
            \<and> fst (attach_document_to_case self w case_uuid document
                      security_unit_id security_unit_name) = Inl e)"
  using attach_document_to_case_sent[OF assms, of case_uuid document
          security_unit_id security_unit_name]
  by (simp add: attach_request_def attach_payload_def py_getitem_def)

theorem attach_document_to_case_request_witness:
  "(\<exists>rq payload common.
      attach_requests (example_world (example_server PNone PNone))
        (snd (snd (attach_document_to_case (example_client 63900190800000000)
                     (example_world (example_server PNone PNone))
                     ''case-1'' example_document None None))) = [rq]
      \<and> body rq = Json payload
      \<and> py_getitem payload ''common'' = Inr common
      \<and> py_getitem common ''uuid'' = Inr (PStr ''uuid-aa'')
      \<and> py_getitem payload ''documentDate'' = Inr (PStr ''2025-12-01T12:00:00Z'')
      \<and> py_getitem payload ''securityUnit''
          = Inr (PDict [(''losIdentity'',
               PDict [(''administrativeUnitId'', PInt 818485),
                      (''fullName'', PStr ''Borgerservice'')])]))
   \<and> attach_requests (example_world (failing_server 401))
        (snd (snd (attach_document_to_case (example_client 63900183600000000)
                     (example_world (failing_server 401))
                     ''case-1'' example_document None None))) = []"
proof -
  have d: "strftime (example_world srv) (clock (example_world srv) (clock_reads (example_world srv)))
             = ''2025-12-01T12:00:00Z''" for srv
    by (simp add: example_defs)
  have u: "NovaDocument.uuid example_document = PStr ''uuid-aa''"
    by (simp add: example_document_def)
  from attach_document_to_case_request
         [OF example_token_cached_attach, of "example_server PNone PNone"
            "''case-1''" example_document None None]
  have one: "\<exists>rq payload common.
      attach_requests (example_world (example_server PNone PNone))
        (snd (snd (attach_document_to_case (example_client 63900190800000000)
                     (example_world (example_server PNone PNone))
                     ''case-1'' example_document None None))) = [rq]
      \<and> body rq = Json payload
      \<and> py_getitem payload ''common'' = Inr common
      \<and> py_getitem common ''uuid'' = Inr (PStr ''uuid-aa'')
      \<and> py_getitem payload ''documentDate'' = Inr (PStr ''2025-12-01T12:00:00Z'')
      \<and> py_getitem payload ''securityUnit''
          = Inr (PDict [(''losIdentity'',
               PDict [(''administrativeUnitId'', PInt 818485),
                      (''fullName'', PStr ''Borgerservice'')])])"
    by (simp add: d u)
  from attach_document_to_case_request
         [OF example_token_refresh_fails, of "''case-1''" example_document None None]
  have two: "attach_requests (example_world (failing_server 401))
        (snd (snd (attach_document_to_case (example_client 63900183600000000)
                     (example_world (failing_server 401))
                     ''case-1'' example_document None None))) = []"
    by simp
  from one two show ?thesis ..
qed

section \<open>Uploading a document\<close>

lemma get_bearer_token_fields:
  assumes "get_bearer_token self w = (r, self', w')"
  shows "files w' = files w" and "basename w' = basename w" and "guess_type w' = guess_type w"
    and "uuid_draws w' = uuid_draws w" and "uuid_values w' = uuid_values w"
    and "server w' = server w" and "str_of w' = str_of w" and "strftime w' = strftime w"
    and "clock w' = clock w"
proof -
  from get_bearer_token_world[OF assms]
  have rest: "w' = w\<lparr>clock_reads := clock_reads w', sent := sent w'\<rparr>" by simp
  show "files w' = files w" using arg_cong[OF rest, of files] by simp
  show "basename w' = basename w" using arg_cong[OF rest, of basename] by simp
  show "guess_type w' = guess_type w" using arg_cong[OF rest, of guess_type] by simp
  show "uuid_draws w' = uuid_draws w" using arg_cong[OF rest, of uuid_draws] by simp
  show "uuid_values w' = uuid_values w" using arg_cong[OF rest, of uuid_values] by simp
  show "server w' = server w" using arg_cong[OF rest, of server] by simp
  show "str_of w' = str_of w" using arg_cong[OF rest, of str_of] by simp
  show "strftime w' = strftime w" using arg_cong[OF rest, of strftime] by simp
  show "clock w' = clock w" using arg_cong[OF rest, of clock] by simp
qed

lemma token_request_not_upload:
  "url (token_request cid secret) \<noteq> upload_url transaction_id document_id"
  by (simp add: token_request_def token_url_def upload_url_def DOMAIN_def)

lemma upload_document_steps:
  assumes t: "get_bearer_token self (snd (uuid4 (snd (uuid4 w)))) = (r, self1, w3)"
  shows "uuid_draws (snd (snd (upload_document self w document_path))) = uuid_draws w + 2"
    and "\<And>e. r = Inl e \<Longrightarrow>
           upload_document self w document_path = (Inl e, self1, w3)"
    and "\<And>token. r = Inr token \<Longrightarrow> files w document_path = None \<Longrightarrow>
           upload_document self w document_path = (Inl OSError, self1, w3)"
    and "\<And>token content_of_file. r = Inr token \<Longrightarrow>
           files w document_path = Some content_of_file \<Longrightarrow>
           upload_document self w document_path
             = ((case server w3 (length (sent w3))
                       (upload_request (format_value w3 token) (uuid_values w (uuid_draws w))
                          (uuid_values w (Suc (uuid_draws w))) (basename w document_path)
                          content_of_file
                          (case guess_type w document_path of
                             None \<Rightarrow> ''application/octet-stream'' | Some m \<Rightarrow> m)) of
                   None \<Rightarrow> Inl RequestException
                 | Some resp \<Rightarrow>
                     if 400 \<le> status_code resp \<and> status_code resp < 600
                     then Inl (HTTPError (status_code resp))
                     else Inr (uuid_values w (Suc (uuid_draws w)))),
                self1,
                w3\<lparr>sent := sent w3 @
                      [upload_request (format_value w3 token) (uuid_values w (uuid_draws w))
                         (uuid_values w (Suc (uuid_draws w))) (basename w document_path)
                         content_of_file
                         (case guess_type w document_path of
                            None \<Rightarrow> ''application/octet-stream'' | Some m \<Rightarrow> m)]\<rparr>)"
proof -
  from get_bearer_token_fields[OF t]
  have f: "files w3 = files w" "basename w3 = basename w" "guess_type w3 = guess_type w"
    "uuid_draws w3 = uuid_draws w + 2"
    by (simp_all add: uuid4_def)
  have t': "get_bearer_token self
              (w\<lparr>uuid_draws := Suc (uuid_draws w), uuid_draws := Suc (Suc (uuid_draws w))\<rparr>)
            = (r, self1, w3)"
    using t by (simp add: uuid4_def)
  show "uuid_draws (snd (snd (upload_document self w document_path))) = uuid_draws w + 2"
    using t' f
    by (auto simp: upload_document_def uuid4_def Let_def requests_send_def
          split: sum.splits option.splits)
  show "\<And>e. r = Inl e \<Longrightarrow> upload_document self w document_path = (Inl e, self1, w3)"
    using t' by (simp add: upload_document_def uuid4_def)
  show "\<And>token. r = Inr token \<Longrightarrow> files w document_path = None \<Longrightarrow>
           upload_document self w document_path = (Inl OSError, self1, w3)"
    using t' f by (simp add: upload_document_def uuid4_def Let_def)
  show "\<And>token content_of_file. r = Inr token \<Longrightarrow>
           files w document_path = Some content_of_file \<Longrightarrow>
           upload_document self w document_path
             = ((case server w3 (length (sent w3))
                       (upload_request (format_value w3 token) (uuid_values w (uuid_draws w))
                          (uuid_values w (Suc (uuid_draws w))) (basename w document_path)
                          content_of_file
                          (case guess_type w document_path of
                             None \<Rightarrow> ''application/octet-stream'' | Some m \<Rightarrow> m)) of
                   None \<Rightarrow> Inl RequestException
                 | Some resp \<Rightarrow>
                     if 400 \<le> status_code resp \<and> status_code resp < 600
                     then Inl (HTTPError (status_code resp))
                     else Inr (uuid_values w (Suc (uuid_draws w)))),
                self1,
                w3\<lparr>sent := sent w3 @
                      [upload_request (format_value w3 token) (uuid_values w (uuid_draws w))
                         (uuid_values w (Suc (uuid_draws w))) (basename w document_path)
                         content_of_file
                         (case guess_type w document_path of
                            None \<Rightarrow> ''application/octet-stream'' | Some m \<Rightarrow> m)]\<rparr>)"
    using t' f
    by (simp add: upload_document_def uuid4_def Let_def requests_send_def raise_for_status_def
          split: option.splits)
qed

lemma requests_to_token_step:
  assumes "get_bearer_token self w1 = (r, self1, w3)" and "sent w1 = sent w"
  shows "requests_to (upload_url transaction_id document_id) w w3 = []"
    and "requests_to (upload_url transaction_id document_id) w (w3\<lparr>sent := sent w3 @ [rq]\<rparr>)
           = (if url rq = upload_url transaction_id document_id then [rq] else [])"
proof -
  from get_bearer_token_world[OF assms(1)] assms(2)
  have pre: "sent w3 = sent w \<or>
             sent w3 = sent w @ [token_request (client_id self) (client_secret self)]"
    by auto
  then show "requests_to (upload_url transaction_id document_id) w w3 = []"
    by (auto simp: requests_to_def new_requests_def token_request_not_upload)
  from pre show "requests_to (upload_url transaction_id document_id) w
                   (w3\<lparr>sent := sent w3 @ [rq]\<rparr>)
           = (if url rq = upload_url transaction_id document_id then [rq] else [])"
    by (auto simp: requests_to_def new_requests_def token_request_not_upload)
qed

lemma example_uuid_values_inj: "inj (uuid_values (example_world srv))"
  by (auto simp: inj_def example_world_def dest: arg_cong[where f = length])

lemma example_token_cached_upload:
  "get_bearer_token (example_client 63900190800000000)
     (snd (uuid4 (snd (uuid4 (example_world srv)))))
   = (Inr (PStr ''cached-token''), example_client 63900190800000000,
      (example_world srv)\<lparr>clock_reads := 1, uuid_draws := 2\<rparr>)"
  by (simp add: get_bearer_token_def timedelta_30 datetime_add_def DATETIME_END_def
        datetime_now_def uuid4_def example_defs)

lemma example_token_refresh_fails_upload:
  "get_bearer_token (example_client 63900183600000000)
     (snd (uuid4 (snd (uuid4 (example_world (failing_server 401))))))
   = (Inl (HTTPError 401), example_client 63900183600000000,
      (example_world (failing_server 401))
        \<lparr>clock_reads := 1, uuid_draws := 2,
         sent := [token_request ''robot'' ''s3cret'']\<rparr>)"
  by (simp add: get_bearer_token_def timedelta_30 datetime_add_def DATETIME_END_def
        datetime_now_def uuid4_def example_defs get_new_token_def requests_send_def
        raise_for_status_def)

text \<open>
  C7, as stated, fails: not every call sends the file.  When the file cannot be opened
  the call raises \<open>OSError\<close> and sends nothing at all; when the token step raises (the
  cached token expired an hour ago and the token endpoint answers 401) the call raises
  \<open>HTTPError\<close> and the only request sent is the token request.
\<close>

theorem upload_document_counterexample:
  "new_requests (example_world (example_server PNone PNone))
     (snd (snd (upload_document (example_client 63900190800000000)
                  (example_world (example_server PNone PNone)) ''missing.txt''))) = []
   \<and> fst (upload_document (example_client 63900190800000000)
            (example_world (example_server PNone PNone)) ''missing.txt'') = Inl OSError
   \<and> new_requests (example_world (failing_server 401))
       (snd (snd (upload_document (example_client 63900183600000000)
                    (example_world (failing_server 401)) ''report.pdf'')))
     = [token_request ''robot'' ''s3cret'']
   \<and> fst (upload_document (example_client 63900183600000000)
            (example_world (failing_server 401)) ''report.pdf'') = Inl (HTTPError 401)"
  by (simp add: upload_document_def Let_def get_bearer_token_def timedelta_30
        datetime_add_def DATETIME_END_def datetime_now_def uuid4_def example_defs
        get_new_token_def requests_send_def raise_for_status_def new_requests_def)

text \<open>
  C7, amended.  Every call of \<open>upload_document\<close> draws two identifiers from the
  generator, one after the other: the transaction id and the document id (different ones
  whenever the generator never repeats a value).  When \<open>get_bearer_token\<close> returns a
  token and the file can be opened, the call sends exactly one request to the upload path
  made of these two identifiers: a POST with the file as its one multipart field, under
  the content type guessed from the path, or \<open>application/octet-stream\<close> when there is no
  guess; and it returns the document id drawn unless the transport fails or the answer
  has an error status.  When the file cannot be opened, or \<open>get_bearer_token\<close> raises, no
  upload request is sent and the call raises.
\<close>

theorem upload_document_request:
  assumes "get_bearer_token self (snd (uuid4 (snd (uuid4 w)))) = (r, self1, w3)"
  shows "uuid_draws (snd (snd (upload_document self w document_path))) = uuid_draws w + 2
   \<and> (inj (uuid_values w) \<longrightarrow>
        uuid_values w (uuid_draws w) \<noteq> uuid_values w (Suc (uuid_draws w)))
   \<and> (\<forall>token content_of_file.
        r = Inr token \<and> files w document_path = Some content_of_file \<longrightarrow>
        (\<exists>rq. requests_to (upload_url (uuid_values w (uuid_draws w))
                             (uuid_values w (Suc (uuid_draws w))))
                  w (snd (snd (upload_document self w document_path))) = [rq]
              \<and> http_method rq = POST
              \<and> body rq = Files [(''file'', basename w document_path, content_of_file,
                                  case guess_type w document_path of
                                    None \<Rightarrow> ''application/octet-stream''
                                  | Some m \<Rightarrow> m)]
              \<and> fst (upload_document self w document_path)
                  = (case server w3 (length (sent w3)) rq of
                       None \<Rightarrow> Inl RequestException
                     | Some resp \<Rightarrow>
                         if 400 \<le> status_code resp \<and> status_code resp < 600
                         then Inl (HTTPError (status_code resp))
                         else Inr (uuid_values w (Suc (uuid_draws w))))))
   \<and> (\<forall>token. r = Inr token \<and> files w document_path = None \<longrightarrow>
        requests_to (upload_url (uuid_values w (uuid_draws w))
                       (uuid_values w (Suc (uuid_draws w))))
          w (snd (snd (upload_document self w document_path))) = []
        \<and> fst (upload_document self w document_path) = Inl OSError)
   \<and> (\<forall>e. r = Inl e \<longrightarrow>
        requests_to (upload_url (uuid_values w (uuid_draws w))
                       (uuid_values w (Suc (uuid_draws w))))
          w (snd (snd (upload_document self w document_path))) = []
        \<and> fst (upload_document self w document_path) = Inl e)"
proof -
  note steps = upload_document_steps[OF assms, where document_path = document_path]
  have s: "sent (snd (uuid4 (snd (uuid4 w)))) = sent w" by (simp add: uuid4_def)
  note none = requests_to_token_step(1)[OF assms s]
  note one = requests_to_token_step(2)[OF assms s]
  have 1: "uuid_draws (snd (snd (upload_document self w document_path))) = uuid_draws w + 2"
    by (rule steps(1))
  have 2: "inj (uuid_values w) \<longrightarrow>
        uuid_values w (uuid_draws w) \<noteq> uuid_values w (Suc (uuid_draws w))"
    by (auto dest: injD)
  have 3: "\<exists>rq. requests_to (upload_url (uuid_values w (uuid_draws w))
                             (uuid_values w (Suc (uuid_draws w))))
                  w (snd (snd (upload_document self w document_path))) = [rq]
              \<and> http_method rq = POST
              \<and> body rq = Files [(''file'', basename w document_path, content_of_file,
                                  case guess_type w document_path of
                                    None \<Rightarrow> ''application/octet-stream''
                                  | Some m \<Rightarrow> m)]
              \<and> fst (upload_document self w document_path)
                  = (case server w3 (length (sent w3)) rq of
                       None \<Rightarrow> Inl RequestException
                     | Some resp \<Rightarrow>
                         if 400 \<le> status_code resp \<and> status_code resp < 600
                         then Inl (HTTPError (status_code resp))
                         else Inr (uuid_values w (Suc (uuid_draws w))))"
    if "r = Inr token" "files w document_path = Some content_of_file"
    for token content_of_file
    by (rule exI[of _ "upload_request (format_value w3 token) (uuid_values w (uuid_draws w))
                         (uuid_values w (Suc (uuid_draws w))) (basename w document_path)
                         content_of_file
                         (case guess_type w document_path of
                            None \<Rightarrow> ''application/octet-stream'' | Some m \<Rightarrow> m)"])
       (simp add: steps(4)[OF that] one upload_request_def)
  have 4: "requests_to (upload_url (uuid_values w (uuid_draws w))
                       (uuid_values w (Suc (uuid_draws w))))
          w (snd (snd (upload_document self w document_path))) = []
        \<and> fst (upload_document self w document_path) = Inl OSError"
    if "r = Inr token" "files w document_path = None" for token
    by (simp add: steps(3)[OF that] none)
  have 5: "requests_to (upload_url (uuid_values w (uuid_draws w))
                       (uuid_values w (Suc (uuid_draws w))))
          w (snd (snd (upload_document self w document_path))) = []
        \<and> fst (upload_document self w document_path) = Inl e"
    if "r = Inl e" for e
    by (simp add: steps(2)[OF that] none)
  from 1 2 3 4 5 show ?thesis by blast
qed

theorem upload_document_request_witness:
  "(\<exists>rq. requests_to (upload_url ''uuid-a'' ''uuid-aa'')
            (example_world (example_server PNone PNone))
            (snd (snd (upload_document (example_client 63900190800000000)
                         (example_world (example_server PNone PNone)) ''notes''))) = [rq]
         \<and> http_method rq = POST
         \<and> body rq = Files [(''file'', ''notes'', ''hello'', ''application/octet-stream'')])
   \<and> fst (upload_document (example_client 63900190800000000)
            (example_world (example_server PNone PNone)) ''notes'') = Inr ''uuid-aa''
   \<and> (\<exists>rq. requests_to (upload_url ''uuid-a'' ''uuid-aa'')
            (example_world (example_server PNone PNone))
            (snd (snd (upload_document (example_client 63900190800000000)
                         (example_world (example_server PNone PNone)) ''report.pdf''))) = [rq]
         \<and> body rq = Files [(''file'', ''report.pdf'', ''%PDF-1.7'', ''application/pdf'')])
   \<and> uuid_values (example_world (example_server PNone PNone)) 0
       \<noteq> uuid_values (example_world (example_server PNone PNone)) (Suc 0)
   \<and> requests_to (upload_url ''uuid-a'' ''uuid-aa'')
        (example_world (example_server PNone PNone))
        (snd (snd (upload_document (example_client 63900190800000000)
                     (example_world (example_server PNone PNone)) ''missing.txt''))) = []
   \<and> requests_to (upload_url ''uuid-a'' ''uuid-aa'')
        (example_world (failing_server 401))
        (snd (snd (upload_document (example_client 63900183600000000)
                     (example_world (failing_server 401)) ''report.pdf''))) = []"
proof -
  let ?C = "example_client 63900190800000000"
  let ?W = "example_world (example_server PNone PNone)"
  let ?W' = "example_world (failing_server 401)"
  have v: "uuid_draws (example_world srv) = 0"
    "uuid_values (example_world srv) 0 = ''uuid-a''"
    "uuid_values (example_world srv) (Suc 0) = ''uuid-aa''"
    "files (example_world srv) ''notes'' = Some ''hello''"
    "files (example_world srv) ''report.pdf'' = Some ''%PDF-1.7''"
    "files (example_world srv) ''missing.txt'' = None"
    "basename (example_world srv) = (\<lambda>path. path)"
    "guess_type (example_world srv) ''notes'' = None"
    "guess_type (example_world srv) ''report.pdf'' = Some ''application/pdf''"
    for srv
    by (simp_all add: example_world_def)
  have srv: "server (example_world (example_server PNone PNone)) n rq
               = Some \<lparr>status_code = 200, json_body = Some PNone, content = ''content''\<rparr>"
    for n rq
    by (simp add: example_world_def example_server_def)
  note plain = upload_document_request[OF example_token_cached_upload,
      of "example_server PNone PNone" "''notes''"]
  note report = upload_document_request[OF example_token_cached_upload,
      of "example_server PNone PNone" "''report.pdf''"]
  note missing = upload_document_request[OF example_token_cached_upload,
      of "example_server PNone PNone" "''missing.txt''"]
  note refused = upload_document_request[OF example_token_refresh_fails_upload,
      of "''report.pdf''"]
  from plain have a: "\<exists>rq. requests_to (upload_url ''uuid-a'' ''uuid-aa'') ?W
            (snd (snd (upload_document ?C ?W ''notes''))) = [rq]
         \<and> http_method rq = POST
         \<and> body rq = Files [(''file'', ''notes'', ''hello'', ''application/octet-stream'')]
         \<and> fst (upload_document ?C ?W ''notes'') = Inr ''uuid-aa''"
    by (auto simp: v srv)
  from report have b: "\<exists>rq. requests_to (upload_url ''uuid-a'' ''uuid-aa'') ?W
            (snd (snd (upload_document ?C ?W ''report.pdf''))) = [rq]
         \<and> body rq = Files [(''file'', ''report.pdf'', ''%PDF-1.7'', ''application/pdf'')]"
    by (auto simp: v srv)
  from plain example_uuid_values_inj[of "example_server PNone PNone"]
  have c: "uuid_values ?W 0 \<noteq> uuid_values ?W (Suc 0)"
    unfolding v(1) by blast
  from missing have d: "requests_to (upload_url ''uuid-a'' ''uuid-aa'') ?W
        (snd (snd (upload_document ?C ?W ''missing.txt''))) = []"
    by (simp add: v)
  from refused have e: "requests_to (upload_url ''uuid-a'' ''uuid-aa'') ?W'
        (snd (snd (upload_document (example_client 63900183600000000) ?W' ''report.pdf''))) = []"
    by (simp add: v)
  from a b c d e show ?thesis by blast
qed

section \<open>Constructing the client\<close>

lemma timedelta_seconds_small:
  assumes "0 < n" and "n * 1000000 < DATETIME_END"
  shows "timedelta_seconds n = Inr (n * 1000000)"
proof -
  from assms(2) have "n < 315537897600" by (simp add: DATETIME_END_def)
  then have "n div 86400 \<le> 999999999" by linarith
  moreover from assms(1) have "0 \<le> n div 86400" by simp
  ultimately show ?thesis by (simp add: timedelta_seconds_def)
qed

lemma init_sent: "new_requests w (snd (init cid secret w)) = [token_request cid secret]"
proof -
  obtain r w' where g: "get_new_token cid secret w = (r, w')" by (metis surj_pair)
  from get_new_token_world[OF g] g show ?thesis
    by (auto simp: init_def new_requests_def split: sum.splits)
qed

text \<open>
  C8, as stated, fails in both halves.  A \<^verbatim>\<open>datetime\<close> ends with the year 9999: when
  the token endpoint grants a token for \<open>10\<^sup>1\<^sup>2\<close> seconds, the sum of the clock and the
  lifetime is no \<^verbatim>\<open>datetime\<close> and the constructor raises \<open>OverflowError\<close>.  And
  \<^verbatim>\<open>raise_for_status\<close> is the only check of the status: when the answer has the status
  300, which is no success, and carries a token, the constructor does not raise but
  builds a client with that token.
\<close>

theorem init_counterexample:
  "fst (init ''robot'' ''s3cret''
          (example_world (example_server (example_token_answer 1000000000000) PNone)))
     = Inl OverflowError
   \<and> fst (init ''robot'' ''s3cret''
            (example_world (status_server 300 (example_token_answer 3600))))
     = Inr \<lparr>client_id = ''robot'', client_secret = ''s3cret'',
            bearer_token = PStr ''fresh-token'', token_expiry_date = 63900190800000000\<rparr>"
  by (simp add: init_def get_new_token_def requests_send_def raise_for_status_def
        response_json_def datetime_now_def py_int_def py_getitem_def timedelta_seconds_def
        datetime_add_def DATETIME_END_def example_defs example_token_answer_def
        token_request_def)

text \<open>
  C8, amended.  The constructor sends the token request, and nothing else.  When the
  answer is no error status and grants a token for a positive number \<open>n\<close> of seconds such
  that the clock plus \<open>n\<close> seconds is still a \<^verbatim>\<open>datetime\<close>, the construction succeeds,
  and the expiry stored is the reading of the clock plus \<open>n\<close> seconds, strictly after that
  reading.  When the answer has an error status (400 to 599, the codes for which
  \<^verbatim>\<open>raise_for_status\<close> raises) the constructor raises \<open>HTTPError\<close>: no client comes
  to exist, and so no token state.
\<close>

theorem init_token_expiry:
  assumes "server w (length (sent w)) (token_request cid secret) = Some resp"
  shows "(\<forall>j bearer n.
            \<not> (400 \<le> status_code resp \<and> status_code resp < 600)
            \<and> json_body resp = Some j
            \<and> py_getitem j ''access_token'' = Inr bearer
            \<and> py_getitem j ''expires_in'' = Inr (PInt n)
            \<and> 0 < n
            \<and> 0 \<le> clock w (clock_reads w)
            \<and> clock w (clock_reads w) + n * 1000000 < DATETIME_END
            \<longrightarrow> fst (init cid secret w)
                  = Inr \<lparr>client_id = cid, client_secret = secret, bearer_token = bearer,
                         token_expiry_date = clock w (clock_reads w) + n * 1000000\<rparr>
                \<and> clock w (clock_reads w) < clock w (clock_reads w) + n * 1000000)
       \<and> (400 \<le> status_code resp \<and> status_code resp < 600
            \<longrightarrow> fst (init cid secret w) = Inl (HTTPError (status_code resp)))
       \<and> new_requests w (snd (init cid secret w)) = [token_request cid secret]"
proof (intro conjI allI impI)
  fix j bearer n
  assume a: "\<not> (400 \<le> status_code resp \<and> status_code resp < 600)
            \<and> json_body resp = Some j
            \<and> py_getitem j ''access_token'' = Inr bearer
            \<and> py_getitem j ''expires_in'' = Inr (PInt n)
            \<and> 0 < n
            \<and> 0 \<le> clock w (clock_reads w)
            \<and> clock w (clock_reads w) + n * 1000000 < DATETIME_END"
  then have "n * 1000000 < DATETIME_END" by linarith
  with a have td: "timedelta_seconds n = Inr (n * 1000000)"
    by (simp add: timedelta_seconds_small)
  from a have da: "datetime_add (clock w (clock_reads w)) (n * 1000000)
                     = Inr (clock w (clock_reads w) + n * 1000000)"
    by (simp add: datetime_add_def)
  from a assms td da
  show "fst (init cid secret w)
          = Inr \<lparr>client_id = cid, client_secret = secret, bearer_token = bearer,
                 token_expiry_date = clock w (clock_reads w) + n * 1000000\<rparr>"
    by (simp add: init_def get_new_token_def requests_send_def raise_for_status_def
          response_json_def datetime_now_def py_int_def)
  from a show "clock w (clock_reads w) < clock w (clock_reads w) + n * 1000000"
    by simp
next
  assume "400 \<le> status_code resp \<and> status_code resp < 600"
  with assms show "fst (init cid secret w) = Inl (HTTPError (status_code resp))"
    by (simp add: init_def get_new_token_def requests_send_def raise_for_status_def)
next
  show "new_requests w (snd (init cid secret w)) = [token_request cid secret]"
    by (rule init_sent)
qed

lemma example_token_served:
  "server (example_world (example_server (example_token_answer lifetime) PNone))
     (length (sent (example_world (example_server (example_token_answer lifetime) PNone))))
     (token_request ''robot'' ''s3cret'')
   = Some \<lparr>status_code = 200, json_body = Some (example_token_answer lifetime),
            content = ''content''\<rparr>"
  by (simp add: example_defs token_request_def)

lemma example_token_refused:
  "server (example_world (failing_server 401))
     (length (sent (example_world (failing_server 401))))
     (token_request ''robot'' ''s3cret'')
   = Some \<lparr>status_code = 401, json_body = None, content = []\<rparr>"
  by (simp add: example_defs)

theorem init_token_expiry_witness:
  "fst (init ''robot'' ''s3cret''
          (example_world (example_server (example_token_answer 3600) PNone)))
     = Inr \<lparr>client_id = ''robot'', client_secret = ''s3cret'',
            bearer_token = PStr ''fresh-token'', token_expiry_date = 63900190800000000\<rparr>
   \<and> fst (init ''robot'' ''s3cret'' (example_world (failing_server 401)))
     = Inl (HTTPError 401)"
proof -
  let ?W = "example_world (example_server (example_token_answer 3600) PNone)"
  have c: "clock (example_world srv) (clock_reads (example_world srv)) = 63900187200000000"
    for srv
    by (simp add: example_defs)
  have h: "\<not> (400 \<le> status_code \<lparr>status_code = 200,
                   json_body = Some (example_token_answer 3600), content = ''content''\<rparr>
              \<and> status_code \<lparr>status_code = 200,
                   json_body = Some (example_token_answer 3600), content = ''content''\<rparr> < 600)
     \<and> json_body \<lparr>status_code = 200,
                   json_body = Some (example_token_answer 3600), content = ''content''\<rparr>
         = Some (example_token_answer 3600)
     \<and> py_getitem (example_token_answer 3600) ''access_token'' = Inr (PStr ''fresh-token'')
     \<and> py_getitem (example_token_answer 3600) ''expires_in'' = Inr (PInt 3600)
     \<and> (0::int) < 3600
     \<and> 0 \<le> clock ?W (clock_reads ?W)
     \<and> clock ?W (clock_reads ?W) + 3600 * 1000000 < DATETIME_END"
    by (simp add: c example_token_answer_def py_getitem_def DATETIME_END_def)
  from init_token_expiry[OF example_token_served, of 3600] h
  have one: "fst (init ''robot'' ''s3cret'' ?W)
     = Inr \<lparr>client_id = ''robot'', client_secret = ''s3cret'',
            bearer_token = PStr ''fresh-token'',
            token_expiry_date = clock ?W (clock_reads ?W) + 3600 * 1000000\<rparr>"
    by blast
  from init_token_expiry[OF example_token_refused]
  have two: "fst (init ''robot'' ''s3cret'' (example_world (failing_server 401)))
     = Inl (HTTPError 401)"
    by simp
  from one two show ?thesis by (simp add: c)
qed

section \<open>The state of the client\<close>

lemma get_bearer_token_frame:
  assumes "get_bearer_token self w = (r, self', w')"
  shows "client_id self' = client_id self \<and> client_secret self' = client_secret self
         \<and> (\<not> refresh_due self (clock w (clock_reads w)) \<longrightarrow> self' = self)"
  using get_bearer_token_ids[OF assms] get_bearer_token_cached[OF assms]
  by (simp add: refresh_due_def)

lemma frame_via_token:
  assumes "self' = fst (snd (get_bearer_token self w1))"
    and "clock w1 (clock_reads w1) = now"
  shows "client_id self' = client_id self \<and> client_secret self' = client_secret self
         \<and> (\<not> refresh_due self now \<longrightarrow> self' = self)"
proof -
  obtain r s1 w2 where t: "get_bearer_token self w1 = (r, s1, w2)" by (metis prod_cases3)
  from get_bearer_token_frame[OF t] assms t show ?thesis by simp
qed

lemma get_address_by_cpr_client:
  "fst (snd (get_address_by_cpr self w cpr)) = fst (snd (get_bearer_token self (snd (uuid4 w))))"
  by (simp add: get_address_by_cpr_def split: prod.splits sum.splits)

lemma get_cases_client:
  "fst (snd (get_cases self w cpr case_number' case_title))
     = (if \<not> (truthy cpr \<or> truthy case_number' \<or> truthy case_title) then self
        else fst (snd (get_bearer_token self (snd (uuid4 w)))))"
  by (simp add: get_cases_def split: prod.splits sum.splits)

lemma upload_document_client:
  "fst (snd (upload_document self w document_path))
     = fst (snd (get_bearer_token self (snd (uuid4 (snd (uuid4 w))))))"
  by (simp add: upload_document_def Let_def split: prod.splits sum.splits option.splits)

lemma get_documents_client:
  "fst (snd (get_documents self w case_uuid)) = fst (snd (get_bearer_token self (snd (uuid4 w))))"
  by (simp add: get_documents_def split: prod.splits sum.splits)

lemma download_document_file_client:
  "fst (snd (download_document_file self w document_uuid checkout checkout_comment))
     = fst (snd (get_bearer_token self (snd (uuid4 w))))"
  by (simp add: download_document_file_def split: prod.splits sum.splits)

lemma attach_document_to_case_client:
  "fst (snd (attach_document_to_case self w case_uuid document security_unit_id
               security_unit_name))
     = fst (snd (get_bearer_token self (snd (datetime_now (snd (uuid4 w))))))"
  by (simp add: attach_document_to_case_def Let_def split: prod.splits sum.splits)

text \<open>
  C10.  \<open>get_bearer_token\<close> and the six operations built on it leave \<open>client_id\<close> and
  \<open>client_secret\<close> as they were, and when the refresh condition of \<open>get_bearer_token\<close>
  does not hold at the reading of the clock that it makes, the whole client state is
  as it was: the token and its expiry change in the refresh branch only.  (The reading
  is the next one of the clock, and the one after it in \<open>attach_document_to_case\<close>,
  which reads the clock once for the document date before.)
\<close>

theorem client_state_frame:
  "(\<forall>self' \<in> {fst (snd (get_bearer_token self w)),
               fst (snd (get_address_by_cpr self w cpr)),
               fst (snd (get_cases self w cpr' case_number' case_title)),
               fst (snd (upload_document self w document_path)),
               fst (snd (get_documents self w case_uuid)),
               fst (snd (download_document_file self w document_uuid checkout checkout_comment))}.
      client_id self' = client_id self \<and> client_secret self' = client_secret self
      \<and> (\<not> refresh_due self (clock w (clock_reads w)) \<longrightarrow> self' = self))
   \<and> (\<forall>self' \<in> {fst (snd (attach_document_to_case self w case_uuid document
                               security_unit_id security_unit_name))}.
      client_id self' = client_id self \<and> client_secret self' = client_secret self
      \<and> (\<not> refresh_due self (clock w (Suc (clock_reads w))) \<longrightarrow> self' = self))"
proof -
  have u: "clock (snd (uuid4 v)) (clock_reads (snd (uuid4 v))) = clock v (clock_reads v)" for v
    by (simp add: uuid4_def)
  have d: "clock (snd (datetime_now v)) (clock_reads (snd (datetime_now v)))
             = clock v (Suc (clock_reads v))" for v
    by (simp add: datetime_now_def)
  have 0: "client_id (fst (snd (get_bearer_token self w))) = client_id self
      \<and> client_secret (fst (snd (get_bearer_token self w))) = client_secret self
      \<and> (\<not> refresh_due self (clock w (clock_reads w))
            \<longrightarrow> fst (snd (get_bearer_token self w)) = self)"
    by (rule frame_via_token) simp_all
  have 1: "client_id (fst (snd (get_address_by_cpr self w cpr))) = client_id self
      \<and> client_secret (fst (snd (get_address_by_cpr self w cpr))) = client_secret self
      \<and> (\<not> refresh_due self (clock w (clock_reads w))
            \<longrightarrow> fst (snd (get_address_by_cpr self w cpr)) = self)"
    by (rule frame_via_token[OF get_address_by_cpr_client]) (simp add: u)
  have 2: "client_id (fst (snd (get_cases self w cpr' case_number' case_title))) = client_id self
      \<and> client_secret (fst (snd (get_cases self w cpr' case_number' case_title)))
          = client_secret self
      \<and> (\<not> refresh_due self (clock w (clock_reads w))
            \<longrightarrow> fst (snd (get_cases self w cpr' case_number' case_title)) = self)"
  proof (cases "truthy cpr' \<or> truthy case_number' \<or> truthy case_title")
    case True
    then have "fst (snd (get_cases self w cpr' case_number' case_title))
                 = fst (snd (get_bearer_token self (snd (uuid4 w))))"
      by (simp add: get_cases_client)
    then show ?thesis by (rule frame_via_token) (simp add: u)
  next
    case False
    then show ?thesis by (simp add: get_cases_client)
  qed
  have 3: "client_id (fst (snd (upload_document self w document_path))) = client_id self
      \<and> client_secret (fst (snd (upload_document self w document_path))) = client_secret self
      \<and> (\<not> refresh_due self (clock w (clock_reads w))
            \<longrightarrow> fst (snd (upload_document self w document_path)) = self)"
    by (rule frame_via_token[OF upload_document_client]) (simp add: u)
  have 4: "client_id (fst (snd (get_documents self w case_uuid))) = client_id self
      \<and> client_secret (fst (snd (get_documents self w case_uuid))) = client_secret self
      \<and> (\<not> refresh_due self (clock w (clock_reads w))
            \<longrightarrow> fst (snd (get_documents self w case_uuid)) = self)"
    by (rule frame_via_token[OF get_documents_client]) (simp add: u)
  have 5: "client_id (fst (snd (download_document_file self w document_uuid checkout
                                   checkout_comment))) = client_id self
      \<and> client_secret (fst (snd (download_document_file self w document_uuid checkout
                                     checkout_comment))) = client_secret self
      \<and> (\<not> refresh_due self (clock w (clock_reads w))
            \<longrightarrow> fst (snd (download_document_file self w document_uuid checkout
                             checkout_comment)) = self)"
    by (rule frame_via_token[OF download_document_file_client]) (simp add: u)
  have 6: "client_id (fst (snd (attach_document_to_case self w case_uuid document
                                   security_unit_id security_unit_name))) = client_id self
      \<and> client_secret (fst (snd (attach_document_to_case self w case_uuid document
                                     security_unit_id security_unit_name))) = client_secret self
      \<and> (\<not> refresh_due self (clock w (Suc (clock_reads w)))
            \<longrightarrow> fst (snd (attach_document_to_case self w case_uuid document
                             security_unit_id security_unit_name)) = self)"
    by (rule frame_via_token[OF attach_document_to_case_client]) (simp add: d uuid4_def)
  from 0 1 2 3 4 5 6 show ?thesis by blast
qed

theorem client_state_frame_witness:
  "fst (snd (get_bearer_token (example_client 63900190800000000)
               (example_world (example_server PNone PNone))))
     = example_client 63900190800000000
   \<and> fst (snd (get_address_by_cpr (example_client 63900190800000000)
               (example_world (example_server PNone PNone)) ''0101011234''))
     = example_client 63900190800000000
   \<and> fst (snd (get_cases (example_client 63900190800000000)
               (example_world (example_server PNone PNone)) (Some ''0101011234'') None None))
     = example_client 63900190800000000
   \<and> fst (snd (upload_document (example_client 63900190800000000)
               (example_world (example_server PNone PNone)) ''report.pdf''))
     = example_client 63900190800000000
   \<and> fst (snd (get_documents (example_client 63900190800000000)
               (example_world (example_server PNone PNone)) ''case-1''))
     = example_client 63900190800000000
   \<and> fst (snd (download_document_file (example_client 63900190800000000)
               (example_world (example_server PNone PNone)) ''uuid-aa'' None None))
     = example_client 63900190800000000
   \<and> fst (snd (attach_document_to_case (example_client 63900190800000000)
               (example_world (example_server PNone PNone)) ''case-1'' example_document
               None None))
     = example_client 63900190800000000"
proof -
  let ?C = "example_client 63900190800000000"
  let ?W = "example_world (example_server PNone PNone)"
  have n: "\<not> refresh_due ?C (clock ?W (clock_reads ?W))"
    "\<not> refresh_due ?C (clock ?W (Suc (clock_reads ?W)))"
    by (simp_all add: refresh_due_def example_defs)
  note inst = client_state_frame[of ?C ?W "''0101011234''" "Some ''0101011234''" None None
      "''report.pdf''" "''case-1''" "''uuid-aa''" None None example_document None None]
  from inst n show ?thesis by blast
qed

section \<open>A token that is about to expire\<close>

text \<open>
  The two branches of \<open>get_bearer_token\<close>, when \<open>token_expiry_date\<close> plus 30 seconds is
  still a \<^verbatim>\<open>datetime\<close>: the cached token with the client untouched and the clock read
  once, or one token exchange.
\<close>

lemma get_bearer_token_not_due:
  assumes "datetime_add (token_expiry_date self) 30000000 = Inr t"
    and "\<not> refresh_due self (clock w (clock_reads w))"
  shows "get_bearer_token self w
           = (Inr (bearer_token self), self, w\<lparr>clock_reads := Suc (clock_reads w)\<rparr>)"
  using assms
  by (auto simp: get_bearer_token_def timedelta_30 datetime_add_def datetime_now_def
        refresh_due_def split: if_splits)

lemma get_bearer_token_due:
  assumes "datetime_add (token_expiry_date self) 30000000 = Inr t"
    and "refresh_due self (clock w (clock_reads w))"
  shows "new_requests w (snd (snd (get_bearer_token self w)))
           = [token_request (client_id self) (client_secret self)]"
proof -
  obtain r w2 where g: "get_new_token (client_id self) (client_secret self)
                          (w\<lparr>clock_reads := Suc (clock_reads w)\<rparr>) = (r, w2)"
    by (metis surj_pair)
  from get_new_token_world[OF g] have "sent w2 = sent w @ [token_request (client_id self) (client_secret self)]"
    by simp
  with assms g show ?thesis
    by (auto simp: get_bearer_token_def timedelta_30 datetime_add_def datetime_now_def
          refresh_due_def new_requests_def split: if_splits sum.splits prod.splits)
qed

text \<open>
  C1.  The claim, and the docstring of \<open>get_bearer_token\<close> ("if the token is about to
  expire, a new token is requested"), ask for a new token when the expiry is less than
  30 seconds away or past.  The code compares \<open>expiry + 30 s < now\<close>: it asks for a new
  token only when the old one has been expired for more than 30 seconds.  With the
  clock at 12:00:00, a token that expires at 12:00:10 and one that expired at 11:59:50
  are both returned as they are, and no request is sent, although the token endpoint
  would have granted a new token.
\<close>

theorem get_bearer_token_keeps_expiring_token:
  "get_bearer_token (example_client 63900187210000000)
     (example_world (example_server (example_token_answer 3600) PNone))
   = (Inr (PStr ''cached-token''), example_client 63900187210000000,
      (example_world (example_server (example_token_answer 3600) PNone))\<lparr>clock_reads := 1\<rparr>)
   \<and> get_bearer_token (example_client 63900187190000000)
     (example_world (example_server (example_token_answer 3600) PNone))
   = (Inr (PStr ''cached-token''), example_client 63900187190000000,
      (example_world (example_server (example_token_answer 3600) PNone))\<lparr>clock_reads := 1\<rparr>)
   \<and> sent ((example_world (example_server (example_token_answer 3600) PNone))
             \<lparr>clock_reads := 1\<rparr>) = []"
  by (simp add: get_bearer_token_def timedelta_30 datetime_add_def DATETIME_END_def
        datetime_now_def example_defs)

end
